theory Spec2Isabelle
  imports Main
begin

section \<open>JavaScript values\<close>

text \<open>
  The adapter handles untyped JavaScript values: query parameters, attribute
  definitions and result rows. They are modelled by one datatype.
  \<^item> A number is kept as the exact decimal \<open>m / 10 ^ d\<close> (\<open>JNum m d\<close>), so an integer
    \<open>n\<close> is \<open>JNum n 0\<close>; \<open>normDec\<close> gives the form without trailing zeros, in
    which equal numbers are equal values. Rounding to an IEEE double is not
    modelled. \<open>NaN\<close> is a value of its own.
  \<^item> An object is the list of its own properties in enumeration order; keys are
    unique in the objects built here (\<open>obj_set\<close> keeps them so).
  \<^item> Strings are HOL strings.
\<close>

datatype jsval =
    JUndefined
  | JNull
  | JBool bool
  | JNum int nat
  | JNaN
  | JStr string
  | JArr "jsval list"
  | JObj "(string \<times> jsval) list"

datatype js_error = TypeError | SyntaxError

text \<open>\<open>!value\<close>: the falsy values are undefined, null, false, 0, NaN and the empty string.\<close>

fun falsy :: "jsval \<Rightarrow> bool" where
  "falsy JUndefined = True"
| "falsy JNull = True"
| "falsy (JBool b) = (\<not> b)"
| "falsy (JNum m d) = (m = 0)"
| "falsy JNaN = True"
| "falsy (JStr s) = (s = [])"
| "falsy (JArr xs) = False"
| "falsy (JObj ps) = False"

definition truthy :: "jsval \<Rightarrow> bool" where
  "truthy v = (\<not> falsy v)"

fun normDec :: "int \<Rightarrow> nat \<Rightarrow> jsval" where
  "normDec m 0 = JNum m 0"
| "normDec m (Suc d) = (if m mod 10 = 0 then normDec (m div 10) d else JNum m (Suc d))"

text \<open>
  Reading a property where JavaScript yields \<open>undefined\<close> rather than throwing:
  \<open>_.get\<close>, \<open>_.property\<close>, and \<open>o.k\<close> on an object or a primitive other than null and
  undefined (own properties only: the \<open>length\<close> and the indices of strings and
  arrays are not property names the adapter asks for).
\<close>

fun getProp :: "string \<Rightarrow> jsval \<Rightarrow> jsval" where
  "getProp k (JObj ps) = (case map_of ps k of None \<Rightarrow> JUndefined | Some v \<Rightarrow> v)"
| "getProp k v = JUndefined"

text \<open>\<open>a || b\<close> on values.\<close>

definition js_or_val :: "jsval \<Rightarrow> jsval \<Rightarrow> jsval" where
  "js_or_val a b = (if truthy a then a else b)"

text \<open>\<open>_.isObject\<close>: objects and arrays.\<close>

fun isObject :: "jsval \<Rightarrow> bool" where
  "isObject (JObj ps) = True"
| "isObject (JArr xs) = True"
| "isObject v = False"

section \<open>Placeholder rewriting and parameter casting (util.js)\<close>

definition isDigit :: "char \<Rightarrow> bool" where
  "isDigit c = (c \<in> set ''0123456789'')"

text \<open>
  \<open>toKnexRawQuery (sql) { return sql.replace(/\$\d+/g, '?') }\<close>

  The global regular expression is matched from left to right; a match is a
  dollar sign and the longest run of decimal digits after it (at least one), and
  the scan resumes after the match.
\<close>

function toKnexRawQuery :: "string \<Rightarrow> string" where
  "toKnexRawQuery [] = []"
| "toKnexRawQuery (c # cs) =
     (if c = CHR ''$'' \<and> cs \<noteq> [] \<and> isDigit (hd cs)
      then CHR ''?'' # toKnexRawQuery (dropWhile isDigit cs)
      else c # toKnexRawQuery cs)"
  by pat_completeness auto
termination
  by (relation "measure length") (auto simp: length_dropWhile_le less_Suc_eq_le)

text \<open>
  \<open>JSON.parse\<close> is a built-in of the language, not code of the adapter. The
  functions of the adapter that call it take it as the parameter \<open>parse\<close>
  (\<open>None\<close>: it throws a SyntaxError), and their theorems hold for every such
  function. \<open>JSON_parse\<close> below is the grammar of ECMA-404, used to evaluate the
  adapter on concrete inputs.
\<close>

definition isWs :: "char \<Rightarrow> bool" where
  "isWs c = (c \<in> set [CHR 0x20, CHR 0x09, CHR 0x0A, CHR 0x0D])"

definition skipWs :: "string \<Rightarrow> string" where
  "skipWs s = dropWhile isWs s"

definition isHex :: "char \<Rightarrow> bool" where
  "isHex c = (c \<in> set ''0123456789abcdefABCDEF'')"

definition hexVal :: "char \<Rightarrow> nat" where
  "hexVal c = (if isDigit c then of_char c - 48
               else if c \<in> set ''abcdef'' then of_char c - 87
               else of_char c - 55)"

definition digitVal :: "char \<Rightarrow> nat" where
  "digitVal c = of_char c - 48"

definition natOfDigits :: "string \<Rightarrow> nat" where
  "natOfDigits ds = foldl (\<lambda>a c. 10 * a + digitVal c) 0 ds"

text \<open>
  A \<open>\uXXXX\<close> escape denotes one UTF-16 code unit. Code units below 256 are the
  character of that code; a larger one does not fit a HOL character and is kept
  as the six characters of the escape (validity of the text is not affected).
\<close>

definition unescapeU :: "string \<Rightarrow> string" where
  "unescapeU hs =
     (let n = foldl (\<lambda>a c. 16 * a + hexVal c) 0 hs
      in if n < 256 then [char_of n] else CHR 0x5C # CHR ''u'' # hs)"

definition simpleEscape :: "char \<Rightarrow> char option" where
  "simpleEscape e =
     (if e = CHR 0x22 then Some (CHR 0x22)
      else if e = CHR 0x5C then Some (CHR 0x5C)
      else if e = CHR ''/'' then Some (CHR ''/'')
      else if e = CHR ''b'' then Some (CHR 0x08)
      else if e = CHR ''f'' then Some (CHR 0x0C)
      else if e = CHR ''n'' then Some (CHR 0x0A)
      else if e = CHR ''r'' then Some (CHR 0x0D)
      else if e = CHR ''t'' then Some (CHR 0x09)
      else None)"

text \<open>The characters of a string after its opening quote, up to the closing one.\<close>

function parseChars :: "string \<Rightarrow> (string \<times> string) option" where
  "parseChars [] = None"
| "parseChars (c # cs) =
     (if c = CHR 0x22 then Some ([], cs)
      else if c = CHR 0x5C then
        (case cs of
           [] \<Rightarrow> None
         | e # es \<Rightarrow>
             if e = CHR ''u'' then
               (if 4 \<le> length es \<and> list_all isHex (take 4 es)
                then map_option (\<lambda>(s, r). (unescapeU (take 4 es) @ s, r)) (parseChars (drop 4 es))
                else None)
             else
               (case simpleEscape e of
                  None \<Rightarrow> None
                | Some d \<Rightarrow> map_option (\<lambda>(s, r). (d # s, r)) (parseChars es)))
      else if (of_char c :: nat) < 32 then None
      else map_option (\<lambda>(s, r). (c # s, r)) (parseChars cs))"
  by pat_completeness auto
termination
  by (relation "measure length") auto

text \<open>
  \<open>number = [ "-" ] int [ "." digits ] [ ("e" | "E") [ "+" | "-" ] digits ]\<close>, where
  \<open>int\<close> is \<open>0\<close> or a digit run that does not start with \<open>0\<close>.
\<close>

definition parseNumber :: "string \<Rightarrow> (jsval \<times> string) option" where
  "parseNumber s =
     (let neg = (s \<noteq> [] \<and> hd s = CHR ''-'');
          s1 = (if neg then tl s else s);
          ip = (if s1 \<noteq> [] \<and> hd s1 = CHR ''0'' then ''0'' else takeWhile isDigit s1);
          s2 = drop (length ip) s1;
          hasFrac = (s2 \<noteq> [] \<and> hd s2 = CHR ''.'');
          fp = (if hasFrac then takeWhile isDigit (tl s2) else []);
          s3 = (if hasFrac then drop (length fp) (tl s2) else s2);
          hasExp = (s3 \<noteq> [] \<and> (hd s3 = CHR ''e'' \<or> hd s3 = CHR ''E''));
          s4 = (if hasExp then tl s3 else s3);
          eneg = (hasExp \<and> s4 \<noteq> [] \<and> hd s4 = CHR ''-'');
          s5 = (if hasExp \<and> s4 \<noteq> [] \<and> (hd s4 = CHR ''-'' \<or> hd s4 = CHR ''+'') then tl s4 else s4);
          ep = (if hasExp then takeWhile isDigit s5 else []);
          s6 = drop (length ep) s5;
          m = (if neg then - int (natOfDigits (ip @ fp)) else int (natOfDigits (ip @ fp)));
          e = (if eneg then - int (natOfDigits ep) else int (natOfDigits ep)) - int (length fp)
      in if ip = [] \<or> (hasFrac \<and> fp = []) \<or> (hasExp \<and> ep = []) then None
         else Some (if 0 \<le> e then JNum (m * 10 ^ nat e) 0 else normDec m (nat (- e)), s6))"

definition parseLiteral :: "string \<Rightarrow> jsval \<Rightarrow> string \<Rightarrow> (jsval \<times> string) option" where
  "parseLiteral lit v s = (if take (length lit) s = lit then Some (v, drop (length lit) s) else None)"

text \<open>
  Setting a property: an existing key keeps its place and takes the new value
  (as a repeated key of a JSON text does), a new key goes last.
\<close>

fun obj_set :: "'k \<Rightarrow> 'v \<Rightarrow> ('k \<times> 'v) list \<Rightarrow> ('k \<times> 'v) list" where
  "obj_set k v [] = [(k, v)]"
| "obj_set k v (p # ps) = (if fst p = k then (k, v) # ps else p # obj_set k v ps)"

text \<open>
  Values nest, so the parser recurses on a fuel argument, one unit for each call;
  \<open>JSON_parse\<close> starts it with twice the length of the text and two. Where a
  theorem below says that a text does not parse, it says so for every amount of
  fuel.
\<close>

fun parseValue :: "nat \<Rightarrow> string \<Rightarrow> (jsval \<times> string) option"
  and parseElements :: "nat \<Rightarrow> string \<Rightarrow> (jsval list \<times> string) option"
  and parseMembers :: "nat \<Rightarrow> (string \<times> jsval) list \<Rightarrow> string \<Rightarrow> ((string \<times> jsval) list \<times> string) option"
where
  "parseValue 0 s = None"
| "parseValue (Suc n) s =
     (case skipWs s of
        [] \<Rightarrow> None
      | c # cs \<Rightarrow>
          if c = CHR ''['' then
            (case skipWs cs of
               [] \<Rightarrow> None
             | d # ds \<Rightarrow>
                 if d = CHR '']'' then Some (JArr [], ds)
                 else map_option (\<lambda>(vs, r). (JArr vs, r)) (parseElements n cs))
          else if c = CHR ''{'' then
            (case skipWs cs of
               [] \<Rightarrow> None
             | d # ds \<Rightarrow>
                 if d = CHR ''}'' then Some (JObj [], ds)
                 else map_option (\<lambda>(ps, r). (JObj ps, r)) (parseMembers n [] cs))
          else if c = CHR 0x22 then map_option (\<lambda>(t, r). (JStr t, r)) (parseChars cs)
          else if c = CHR ''t'' then parseLiteral ''true'' (JBool True) (c # cs)
          else if c = CHR ''f'' then parseLiteral ''false'' (JBool False) (c # cs)
          else if c = CHR ''n'' then parseLiteral ''null'' JNull (c # cs)
          else parseNumber (c # cs))"
| "parseElements 0 s = None"
| "parseElements (Suc n) s =
     (case parseValue n s of
        None \<Rightarrow> None
      | Some (v, r) \<Rightarrow>
          (case skipWs r of
             [] \<Rightarrow> None
           | c # cs \<Rightarrow>
               if c = CHR '','' then map_option (\<lambda>(vs, r'). (v # vs, r')) (parseElements n cs)
               else if c = CHR '']'' then Some ([v], cs)
               else None))"
| "parseMembers 0 acc s = None"
| "parseMembers (Suc n) acc s =
     (case skipWs s of
        [] \<Rightarrow> None
      | q # qs \<Rightarrow>
          if q \<noteq> CHR 0x22 then None
          else
            (case parseChars qs of
               None \<Rightarrow> None
             | Some (k, r) \<Rightarrow>
                 (case skipWs r of
                    [] \<Rightarrow> None
                  | c # cs \<Rightarrow>
                      if c \<noteq> CHR '':'' then None
                      else
                        (case parseValue n cs of
                           None \<Rightarrow> None
                         | Some (v, r') \<Rightarrow>
                             (case skipWs r' of
                                [] \<Rightarrow> None
                              | d # ds \<Rightarrow>
                                  if d = CHR '','' then parseMembers n (obj_set k v acc) ds
                                  else if d = CHR ''}'' then Some (obj_set k v acc, ds)
                                  else None)))))"

definition JSON_parse :: "string \<Rightarrow> jsval option" where
  "JSON_parse s =
     (case parseValue (2 * length s + 2) s of
        None \<Rightarrow> None
      | Some (v, r) \<Rightarrow> if skipWs r = [] then Some v else None)"

text \<open>
  \<^verbatim>\<open>
  castValues (values) {
    return _.map(values, value => {
      if (_.isString(value) && value[0] === '[') {
        let arr = JSON.parse(value)
        if (_.isArray(arr)) { return arr }
      }
      return value
    })
  }
  \<close>
\<close>

definition castValue :: "(string \<Rightarrow> jsval option) \<Rightarrow> jsval \<Rightarrow> js_error + jsval" where
  "castValue parse v =
     (case v of
        JStr s \<Rightarrow>
          if s \<noteq> [] \<and> hd s = CHR ''['' then
            (case parse s of
               None \<Rightarrow> Inl SyntaxError
             | Some arr \<Rightarrow> (case arr of JArr a \<Rightarrow> Inr arr | _ \<Rightarrow> Inr v))
          else Inr v
      | _ \<Rightarrow> Inr v)"

fun castValues :: "(string \<Rightarrow> jsval option) \<Rightarrow> jsval list \<Rightarrow> js_error + jsval list" where
  "castValues parse [] = Inr []"
| "castValues parse (v # vs) =
     (case castValue parse v of
        Inl e \<Rightarrow> Inl e
      | Inr w \<Rightarrow> (case castValues parse vs of Inl e \<Rightarrow> Inl e | Inr ws \<Rightarrow> Inr (w # ws)))"

section \<open>Text building\<close>

definition dq :: char where
  "dq = CHR 0x22"

definition nl :: char where
  "nl = CHR 0x0A"

text \<open>\<open>"${s}"\<close> in a template literal.\<close>

definition quoted :: "string \<Rightarrow> string" where
  "quoted s = dq # s @ [dq]"

text \<open>\<open>Array.prototype.join\<close> on strings.\<close>

fun join_with :: "string \<Rightarrow> string list \<Rightarrow> string" where
  "join_with sep [] = []"
| "join_with sep [x] = x"
| "join_with sep (x # y # ys) = x @ sep @ join_with sep (y # ys)"

text \<open>
  The decimal text of an integer. A template literal renders a number so when it
  is an integer below \<open>10 ^ 21\<close> in magnitude, and in exponent notation from
  there, which \<open>showInt\<close> does not follow: what is stated of the text of a number
  is stated under a bound on the number.
\<close>

definition digitChar :: "nat \<Rightarrow> char" where
  "digitChar n = char_of (48 + n)"

function showNat :: "nat \<Rightarrow> string" where
  "showNat n = (if n < 10 then [digitChar n] else showNat (n div 10) @ [digitChar (n mod 10)])"
  by pat_completeness auto
termination
  by (relation "measure id") auto

definition showInt :: "int \<Rightarrow> string" where
  "showInt i = (if i < 0 then CHR ''-'' # showNat (nat (- i)) else showNat (nat i))"

section \<open>Collections as lodash visits them\<close>

text \<open>
  lodash is not code of the adapter; what follows is its documented behaviour.
  \<open>_.map\<close> and \<open>_.each\<close> call their function on the pairs of a collection, value and
  key, in order. An array is visited at its indices and a string at the indices
  of its characters. An object is visited at its own properties, unless it is
  array-like, and ``objects with a \<open>length\<close> property are iterated like arrays'':
  when the value of \<open>length\<close> is an integer from 0 to \<open>2 ^ 53 - 1\<close>
  (\<open>isLength\<close>), the object is visited at the indices below it, each with the
  value of the property of that name, undefined when there is none. A number, a
  boolean, null and undefined have nothing to visit. An index is a number; as a
  key it is kept as its decimal text, which is what a template literal prints
  and which equals none of the property names the adapter compares keys with.
\<close>

definition isLength :: "jsval \<Rightarrow> bool" where
  "isLength v = (case v of JNum n d \<Rightarrow> d = 0 \<and> 0 \<le> n \<and> n \<le> 9007199254740991 | _ \<Rightarrow> False)"

definition lengthOf :: "jsval \<Rightarrow> nat" where
  "lengthOf v = (case v of JNum n d \<Rightarrow> nat n | _ \<Rightarrow> 0)"

fun entries :: "jsval \<Rightarrow> (string \<times> jsval) list" where
  "entries (JObj ps) =
     (if isLength (getProp ''length'' (JObj ps))
      then map (\<lambda>i. (showNat i, getProp (showNat i) (JObj ps)))
             [0..<lengthOf (getProp ''length'' (JObj ps))]
      else ps)"
| "entries (JArr xs) = zip (map showNat [0..<length xs]) xs"
| "entries (JStr s) = zip (map showNat [0..<length s]) (map (\<lambda>c. JStr [c]) s)"
| "entries v = []"

text \<open>
  \<open>_.isEmpty\<close>: an array or a string is empty when it has no elements, an object
  when it has no own property, and a number, a boolean, null and undefined
  always.
\<close>

fun isEmpty :: "jsval \<Rightarrow> bool" where
  "isEmpty (JObj ps) = (ps = [])"
| "isEmpty (JArr xs) = (xs = [])"
| "isEmpty (JStr s) = (s = [])"
| "isEmpty v = True"

section \<open>Criteria and join specifications\<close>

text \<open>
  A criteria object, as far as util.js reads it. \<open>sort\<close> is the value of the
  property, an object from field names to directions when it is given and
  undefined when it is not; \<open>limit\<close> and \<open>skip\<close> are \<open>None\<close> when absent;
  \<open>predicate\<close> is the object that is left when \<open>sort\<close>, \<open>limit\<close>, \<open>groupBy\<close> and
  \<open>skip\<close> are omitted, which is what the criteria parser is given.
\<close>

record criteria =
  sort :: jsval
  limit :: "int option"
  skip :: "int option"
  predicate :: jsval

text \<open>\<open>join.criteria || { }\<close>\<close>

definition emptyCriteria :: criteria where
  "emptyCriteria = \<lparr>sort = JUndefined, limit = None, skip = None, predicate = JObj []\<rparr>"

text \<open>
  A join specification. \<open>removeParentKey\<close> holds when the property is exactly
  \<open>true\<close>, \<open>junctionTable\<close> when the property is truthy, \<open>select\<close> fails only
  when the property is exactly \<open>false\<close>.
\<close>

record join_spec =
  parent :: string
  parentKey :: string
  child :: string
  childKey :: string
  join_alias :: string
  removeParentKey :: bool
  junctionTable :: bool
  select :: bool
  join_criteria :: "criteria option"

text \<open>The options of a joined find: the root criteria and the joins.\<close>

record options = criteria +
  joins :: "join_spec list"

definition PG_MAX_INT :: int where
  "PG_MAX_INT = 2147483647"

text \<open>\<open>n || d\<close> on an optional number: the default is taken when it is absent or 0.\<close>

definition js_or :: "int option \<Rightarrow> int \<Rightarrow> int" where
  "js_or v d = (case v of None \<Rightarrow> d | Some n \<Rightarrow> if n = 0 then d else n)"

section \<open>ORDER BY, aliases and aggregation columns (util.js)\<close>

text \<open>
  \<^verbatim>\<open>
  buildOrderByClause (tableName, options) {
    if (_.isEmpty(options.sort)) { return '1' }
    let queryTokens = _.map(options.sort, (_direction, field) => {
      let direction = _direction === 1 ? '' : 'desc'
      return `"${tableName}"."${field}" ${direction}`
    })
    return queryTokens.join(', ')
  }
  \<close>
\<close>

definition orderToken :: "string \<Rightarrow> string \<times> jsval \<Rightarrow> string" where
  "orderToken tableName fd =
     (let direction = (if snd fd = JNum 1 0 then [] else ''desc'')
      in quoted tableName @ ''.'' @ quoted (fst fd) @ '' '' @ direction)"

definition buildOrderByClause :: "string \<Rightarrow> 'a criteria_scheme \<Rightarrow> string" where
  "buildOrderByClause tableName opts =
     (if isEmpty (sort opts) then ''1''
      else join_with '', '' (map (orderToken tableName) (entries (sort opts))))"

text \<open>
  \<^verbatim>\<open>
  getJoinAlias (join) {
    if (join.alias != join.parentKey && join.removeParentKey === true) { return join.parentKey }
    else { return join.alias }
  }
  getParentAlias (join) {
    if (join.junctionTable) { return this.getJoinAlias(join) + join.parent }
    else { return join.parent }
  }
  getSubqueryAlias (join) { return this.getJoinAlias(join) + join.child }
  \<close>
\<close>

definition getJoinAlias :: "join_spec \<Rightarrow> string" where
  "getJoinAlias j = (if join_alias j \<noteq> parentKey j \<and> removeParentKey j then parentKey j else join_alias j)"

definition getParentAlias :: "join_spec \<Rightarrow> string" where
  "getParentAlias j = (if junctionTable j then getJoinAlias j @ parent j else parent j)"

definition getSubqueryAlias :: "join_spec \<Rightarrow> string" where
  "getSubqueryAlias j = getJoinAlias j @ child j"

text \<open>
  \<^verbatim>\<open>
  buildSelectAggregationColumns (cxn, options) {
    return _.map(_.reject(options.joins, { select: false }), join => {
      let criteria = join.criteria || { }
      let subqueryAlias = this.getSubqueryAlias(join)
      let asColumn = this.getJoinAlias(join)
      let orderBy = this.buildOrderByClause(subqueryAlias, criteria)
      let start = (criteria.skip || 0) + 1
      let end = (criteria.limit || (this.PG_MAX_INT - start)) + start - 1
      return `
        array_to_json(
          (array_remove(array_agg("${subqueryAlias}".* order by ${orderBy}), null))[${start}:${end}]
        ) as "${asColumn}"
      `
    })
  }
  \<close>
\<close>

text \<open>
  The numbers of JavaScript are doubles. Their sums and differences are those of
  the integers while the operands and the results are integers below \<open>2 ^ 53\<close> in
  magnitude, and are rounded beyond; \<open>sliceStart\<close> and \<open>sliceEnd\<close> are the integer
  sums, so what is stated of them is stated for offsets and limits below \<open>2 ^ 52\<close>
  in magnitude, where every sum of the code is exact.
\<close>

definition joinCriteria :: "join_spec \<Rightarrow> criteria" where
  "joinCriteria j = (case join_criteria j of None \<Rightarrow> emptyCriteria | Some c \<Rightarrow> c)"

definition sliceStart :: "'a criteria_scheme \<Rightarrow> int" where
  "sliceStart c = js_or (skip c) 0 + 1"

definition sliceEnd :: "'a criteria_scheme \<Rightarrow> int" where
  "sliceEnd c = js_or (limit c) (PG_MAX_INT - sliceStart c) + sliceStart c - 1"

definition aggregationColumn :: "join_spec \<Rightarrow> string" where
  "aggregationColumn j =
     (let criteria = joinCriteria j;
          subqueryAlias = getSubqueryAlias j;
          asColumn = getJoinAlias j;
          orderBy = buildOrderByClause subqueryAlias criteria;
          start = sliceStart criteria;
          end = sliceEnd criteria
      in [nl] @ ''        array_to_json('' @
         [nl] @ ''          (array_remove(array_agg('' @ quoted subqueryAlias @ ''.* order by '' @ orderBy
              @ ''), null))['' @ showInt start @ '':'' @ showInt end @ '']'' @
         [nl] @ ''        ) as '' @ quoted asColumn @
         [nl] @ ''      '')"

definition buildSelectAggregationColumns :: "options \<Rightarrow> string list" where
  "buildSelectAggregationColumns opts = map aggregationColumn (filter select (joins opts))"


section \<open>WHERE clauses and raw queries\<close>

text \<open>\<open>knex.raw(sql, bindings)\<close>\<close>

datatype knex_raw = KnexRaw string "jsval list"

text \<open>
  The criteria parser of waterline-sequel is not code of the adapter:
  \<open>new CriteriaParser(tableName, cxn.schema, Adapter.wlSqlOptions).read(criteria)\<close> is the
  parameter \<open>read\<close>, from the table name and the criteria to the \<open>query\<close> text and
  the \<open>values\<close> of the clause.

  \<^verbatim>\<open>
  buildWhereClause (cxn, tableName, options) {
    let parser = new CriteriaParser(tableName, cxn.schema, Adapter.wlSqlOptions)
    let clause = parser.read(_.omit(options, [ 'sort', 'limit', 'groupBy', 'skip' ]))
    return cxn.knex.raw(this.toKnexRawQuery(clause.query), this.castValues(clause.values))
  }
  \<close>
\<close>

type_synonym criteria_parser = "string \<Rightarrow> jsval \<Rightarrow> string \<times> jsval list"

definition buildWhereClause ::
  "(string \<Rightarrow> jsval option) \<Rightarrow> criteria_parser \<Rightarrow> string \<Rightarrow> 'a criteria_scheme \<Rightarrow> js_error + knex_raw" where
  "buildWhereClause parse read tableName opts =
     (let clause = read tableName (predicate opts)
      in case castValues parse (snd clause) of
           Inl e \<Rightarrow> Inl e
         | Inr vs \<Rightarrow> Inr (KnexRaw (toKnexRawQuery (fst clause)) vs))"

text \<open>
  adapter.js, the raw query every find, update, destroy, count and direct query
  goes through:
  \<^verbatim>\<open>
  _query (cxn, query, values) {
    return cxn.knex.raw(Util.toKnexRawQuery(query), Util.castValues(values)) ...
  \<close>
\<close>

definition adapter_query :: "(string \<Rightarrow> jsval option) \<Rightarrow> string \<Rightarrow> jsval list \<Rightarrow> js_error + knex_raw" where
  "adapter_query parse query vals =
     (case castValues parse vals of
        Inl e \<Rightarrow> Inl e
      | Inr vs \<Rightarrow> Inr (KnexRaw (toKnexRawQuery query) vs))"

text \<open>The placeholders of a raw query are its question marks.\<close>

fun placeholders :: "knex_raw \<Rightarrow> nat" where
  "placeholders (KnexRaw text bs) = count_list text (CHR ''?'')"

fun bindings :: "knex_raw \<Rightarrow> jsval list" where
  "bindings (KnexRaw text bs) = bs"

text \<open>
  The occurrences of a dollar sign followed by digits in a text: the positions
  where a dollar sign stands immediately before a digit.
\<close>

fun placeholderOccurrences :: "string \<Rightarrow> nat" where
  "placeholderOccurrences [] = 0"
| "placeholderOccurrences [c] = 0"
| "placeholderOccurrences (c # d # cs) =
     (if c = CHR ''$'' \<and> isDigit d then 1 else 0) + placeholderOccurrences (d # cs)"

section \<open>Connections and primary keys (adapter.js)\<close>

text \<open>
  A collection holds the attribute definitions of its table, attribute name to
  definition in enumeration order. \<open>getPrimaryKey\<close> memoizes its result on the
  definition object as the property \<open>_pk\<close>; the memo is the field \<open>pk_memo\<close> here
  (no attribute is named \<open>_pk\<close>).
\<close>

record collection =
  coll_definition :: "(string \<times> jsval) list"
  pk_memo :: "string option"

record connection =
  identity :: string
  collections :: "(string \<times> collection) list"

text \<open>
  \<^verbatim>\<open>
  getPrimaryKey ({ collections }, tableName) {
    let definition = collections[tableName].definition
    if (!definition._pk) {
      let pk = _.findKey(definition, (attr, name) => { return attr.primaryKey === true })
      definition._pk = pk || 'id'
    }
    return definition._pk
  }
  \<close>
  The first parameter is destructured. adapter.js passes the connection object
  (\<open>Adapter.getPrimaryKey(cxn, join.child)\<close>); util.js passes the identity of the
  connection, a string (\<open>Adapter.getPrimaryKey(cxn.identity, tableName)\<close>), and a
  string has no property \<open>collections\<close>: the variable is undefined, and reading
  \<open>collections[tableName]\<close> throws a TypeError.
\<close>

datatype pk_arg = FromConnection connection | FromString string

fun destructureCollections :: "pk_arg \<Rightarrow> (string \<times> collection) list option" where
  "destructureCollections (FromConnection cxn) = Some (collections cxn)"
| "destructureCollections (FromString s) = None"

text \<open>
  \<open>_.findKey\<close> with the predicate \<open>attr.primaryKey === true\<close>; reading the property
  of a null or undefined attribute throws.
\<close>

fun findPrimaryKey :: "(string \<times> jsval) list \<Rightarrow> js_error + string option" where
  "findPrimaryKey [] = Inr None"
| "findPrimaryKey (p # ps) =
     (if snd p = JNull \<or> snd p = JUndefined then Inl TypeError
      else if getProp ''primaryKey'' (snd p) = JBool True then Inr (Some (fst p))
      else findPrimaryKey ps)"

definition getPrimaryKey :: "pk_arg \<Rightarrow> string \<Rightarrow> js_error + string \<times> (string \<times> collection) list" where
  "getPrimaryKey arg tableName =
     (case destructureCollections arg of
        None \<Rightarrow> Inl TypeError
      | Some cs \<Rightarrow>
          (case map_of cs tableName of
             None \<Rightarrow> Inl TypeError
           | Some coll \<Rightarrow>
               (case pk_memo coll of
                  Some pk \<Rightarrow> Inr (pk, cs)
                | None \<Rightarrow>
                    (case findPrimaryKey (coll_definition coll) of
                       Inl e \<Rightarrow> Inl e
                     | Inr found \<Rightarrow>
                         (let pk = (case found of None \<Rightarrow> ''id'' | Some k \<Rightarrow> if k = [] then ''id'' else k)
                          in Inr (pk, obj_set tableName (coll\<lparr>pk_memo := Some pk\<rparr>) cs))))))"

section \<open>The joined query (util.js)\<close>

text \<open>
  A knex query builder is the record of what its methods were given. knex renders
  a builder to text when it is interpolated into a template literal; that is the
  parameter \<open>render\<close>.
\<close>

record knex_query =
  q_select :: "knex_raw list"
  q_from :: string
  q_where :: knex_raw
  q_andWhereRaw :: "string list"
  q_groupBy :: "string list"
  q_orderByRaw :: "string list"
  q_limit :: "int option"
  q_offset :: "int option"
  q_joinRaw :: "string list"

text \<open>
  \<^verbatim>\<open>
  buildKnexJoinSubquery (cxn, join) {
    let criteria = join.criteria || { }
    let parentAlias = this.getParentAlias(join)
    let subquery = cxn.knex
      .select()
      .from(join.child)
      .where(this.buildWhereClause(cxn, join.child, criteria))
      .andWhereRaw(`"${join.child}"."${join.childKey}" = "${parentAlias}"."${join.parentKey}"`)
    return subquery
  }
  \<close>
\<close>

definition correlation :: "join_spec \<Rightarrow> string \<Rightarrow> string" where
  "correlation j parentAlias =
     quoted (child j) @ ''.'' @ quoted (childKey j) @ '' = '' @ quoted parentAlias @ ''.'' @ quoted (parentKey j)"

definition buildKnexJoinSubquery ::
  "(string \<Rightarrow> jsval option) \<Rightarrow> criteria_parser \<Rightarrow> join_spec \<Rightarrow> js_error + knex_query" where
  "buildKnexJoinSubquery parse read j =
     (let criteria = joinCriteria j;
          parentAlias = getParentAlias j
      in case buildWhereClause parse read (child j) criteria of
           Inl e \<Rightarrow> Inl e
         | Inr w \<Rightarrow>
             Inr \<lparr>q_select = [], q_from = child j, q_where = w,
                  q_andWhereRaw = [correlation j parentAlias],
                  q_groupBy = [], q_orderByRaw = [], q_limit = None, q_offset = None,
                  q_joinRaw = []\<rparr>)"

text \<open>
  \<^verbatim>\<open>
  buildKnexJoin (cxn, tableName, options) {
    let selectClause = cxn.knex.raw([
      `"${tableName}".*`,
      ...this.buildSelectAggregationColumns(cxn, options)
    ].join(', '))

    let pk = Adapter.getPrimaryKey(cxn.identity, tableName)

    let query = cxn.knex
      .select(selectClause)
      .from(tableName)
      .where(this.buildWhereClause(cxn, tableName, options))
      .groupBy(`${tableName}.${pk}`)
      .orderByRaw(this.buildOrderByClause(tableName, options))
      .limit(options.limit || this.PG_MAX_INT)
      .offset(options.skip || 0)

    _.each(options.joins, join => {
      let subquery = this.buildKnexJoinSubquery(cxn, join)
      let alias = this.getSubqueryAlias(join)
      query.joinRaw(`left join lateral (${subquery}) as "${alias}" on true`)
    })

    return query
  }
  \<close>
  \<open>knexJoinQuery\<close> is the statement that builds \<open>query\<close>, from the primary key and
  the WHERE clause it is given; \<open>joinLateral\<close> is the loop over the joins.
\<close>

definition knexJoinQuery :: "knex_raw \<Rightarrow> string \<Rightarrow> options \<Rightarrow> string \<Rightarrow> knex_raw \<Rightarrow> knex_query" where
  "knexJoinQuery selectClause tableName opts pk w =
     \<lparr>q_select = [selectClause], q_from = tableName, q_where = w,
      q_andWhereRaw = [],
      q_groupBy = [tableName @ ''.'' @ pk],
      q_orderByRaw = [buildOrderByClause tableName opts],
      q_limit = Some (js_or (limit opts) PG_MAX_INT),
      q_offset = Some (js_or (skip opts) 0),
      q_joinRaw = []\<rparr>"

fun joinLateral ::
  "(string \<Rightarrow> jsval option) \<Rightarrow> criteria_parser \<Rightarrow> (knex_query \<Rightarrow> string) \<Rightarrow>
   join_spec list \<Rightarrow> knex_query \<Rightarrow> js_error + knex_query" where
  "joinLateral parse read render [] query = Inr query"
| "joinLateral parse read render (j # js) query =
     (case buildKnexJoinSubquery parse read j of
        Inl e \<Rightarrow> Inl e
      | Inr subquery \<Rightarrow>
          (let alias = getSubqueryAlias j
           in joinLateral parse read render js
                (query\<lparr>q_joinRaw := q_joinRaw query @
                   [''left join lateral ('' @ render subquery @ '') as '' @ quoted alias @ '' on true'']\<rparr>)))"

definition buildKnexJoin ::
  "(string \<Rightarrow> jsval option) \<Rightarrow> criteria_parser \<Rightarrow> (knex_query \<Rightarrow> string) \<Rightarrow>
   connection \<Rightarrow> string \<Rightarrow> options \<Rightarrow> js_error + knex_query \<times> (string \<times> collection) list" where
  "buildKnexJoin parse read render cxn tableName opts =
     (let selectClause =
            KnexRaw (join_with '', '' ((quoted tableName @ ''.*'') # buildSelectAggregationColumns opts)) []
      in case getPrimaryKey (FromString (identity cxn)) tableName of
           Inl e \<Rightarrow> Inl e
         | Inr (pk, cs) \<Rightarrow>
             (case buildWhereClause parse read tableName opts of
                Inl e \<Rightarrow> Inl e
              | Inr w \<Rightarrow>
                  (case joinLateral parse read render (joins opts)
                          (knexJoinQuery selectClause tableName opts pk w) of
                     Inl e \<Rightarrow> Inl e
                   | Inr query \<Rightarrow> Inr (query, cs))))"

section \<open>De-duplication of nested rows (adapter.js)\<close>

text \<open>
  \<open>_.uniqBy\<close> and \<open>_.compact\<close> follow the documentation of lodash as well.
  \<open>_.uniqBy(array, key)\<close> keeps the first element of each value of
  \<open>element[key]\<close>, in the order of the array; values are compared by SameValueZero,
  under which a primitive equals the same primitive and an object or array equals
  nothing but itself (the keys of two rows are never one object). The elements
  of a string are its characters and those of an array-like object are what it
  has at its indices; null, undefined, a number, a boolean and any other object
  have none. \<open>_.compact\<close> removes the falsy elements.
\<close>

fun isPrimitive :: "jsval \<Rightarrow> bool" where
  "isPrimitive (JArr xs) = False"
| "isPrimitive (JObj ps) = False"
| "isPrimitive v = True"

fun sameValueZero :: "jsval \<Rightarrow> jsval \<Rightarrow> bool" where
  "sameValueZero (JArr xs) b = False"
| "sameValueZero (JObj ps) b = False"
| "sameValueZero a b = (a = b)"

fun arrayElems :: "jsval \<Rightarrow> jsval list" where
  "arrayElems (JArr xs) = xs"
| "arrayElems (JStr s) = map (\<lambda>c. JStr [c]) s"
| "arrayElems (JObj ps) =
     (if isLength (getProp ''length'' (JObj ps)) then map snd (entries (JObj ps)) else [])"
| "arrayElems v = []"

fun uniqByFrom :: "(jsval \<Rightarrow> jsval) \<Rightarrow> jsval list \<Rightarrow> jsval list \<Rightarrow> jsval list" where
  "uniqByFrom f seen [] = []"
| "uniqByFrom f seen (x # xs) =
     (if list_ex (\<lambda>s. sameValueZero s (f x)) seen then uniqByFrom f seen xs
      else x # uniqByFrom f (seen @ [f x]) xs)"

definition uniqBy :: "jsval \<Rightarrow> string \<Rightarrow> jsval list" where
  "uniqBy array key = uniqByFrom (getProp key) [] (arrayElems array)"

definition compact :: "jsval list \<Rightarrow> jsval list" where
  "compact xs = filter truthy xs"

text \<open>
  adapter.js calls members of the object that util.js exports. \<open>Util_members\<close> are
  the members that the object has, in the order of the file. A member that it does
  not have reads as undefined, and calling undefined throws a TypeError; the
  arguments of the call are evaluated first, and those of the calls below throw
  nothing and change nothing. What the member returns when the object has it is
  the second argument of \<open>callUtil\<close>.
\<close>

definition Util_members :: "string list" where
  "Util_members =
     [''PG_MAX_INT'', ''JS_MAX_INT'', ''commitTransaction'', ''getTransaction'',
      ''applyPrimaryKeyConstraints'', ''applyTableConstraints'', ''applyColumnConstraints'',
      ''applyParticularColumnConstraint'', ''toKnexColumn'', ''toKnexRawQuery'', ''castValues'',
      ''sanitize'', ''buildKnexJoin'', ''buildKnexJoinSubquery'', ''buildOrderByClause'',
      ''buildWhereClause'', ''getJoinAlias'', ''getParentAlias'', ''getSubqueryAlias'',
      ''buildSelectAggregationColumns'', ''buildSelectColumns'', ''validateVersion'']"

definition callUtil :: "string \<Rightarrow> 'a \<Rightarrow> js_error + 'a" where
  "callUtil member returned = (if member \<in> set Util_members then Inr returned else Inl TypeError)"

text \<open>
  \<^verbatim>\<open>
  join (connectionName, tableName, options, cb) {
    let cxn = Adapter.connections.get(connectionName)
    let schema = cxn.collections[tableName]
    return Util.buildKnexJoinQuery (cxn, tableName, options)
      .then(result => {
        _.each(_.reject(options.joins, { select: false }), join => {
          let alias = Util.getJoinAlias(join)
          let pk = Adapter.getPrimaryKey(cxn, join.child)
          let schema = cxn.collections[join.child]
          _.each(result, row => {
            row[alias] = Util.castResultRows(_.compact(_.uniqBy(row[alias], pk)), schema)
          })
        })
        return result
      })
      .then(result => {
        result = Util.castResultRows(result, schema)
        return (_.isFunction(cb) ? cb(null, result) : result)
      })
      .catch(AdapterError.wrap(cb))
  }
  \<close>
  \<open>join\<close> calls \<open>Util.buildKnexJoinQuery\<close> and \<open>Util.castResultRows\<close>. The parameter
  \<open>result\<close> is the rows that the former would resolve to, each row an object, and
  the parameter \<open>castResultRows\<close> is what the latter would do. \<open>dedupe\<close> is the
  argument \<open>_.compact(_.uniqBy(row[alias], pk))\<close>. An error is the TypeError that
  \<open>join\<close> throws or that its promise is rejected with. The collection \<open>schema\<close> is
  one object with the collection that \<open>getPrimaryKey\<close> writes its memo on, so it is
  read here from the collections as they are at the end.
\<close>

definition dedupe :: "jsval \<Rightarrow> string \<Rightarrow> jsval list" where
  "dedupe nested pk = compact (uniqBy nested pk)"

definition populateRow ::
  "(jsval list \<Rightarrow> collection option \<Rightarrow> jsval list) \<Rightarrow> collection option \<Rightarrow> string \<Rightarrow> string \<Rightarrow>
   (string \<times> jsval) list \<Rightarrow> js_error + (string \<times> jsval) list" where
  "populateRow castResultRows schema alias pk row =
     (case callUtil ''castResultRows'' (castResultRows (dedupe (getProp alias (JObj row)) pk) schema) of
        Inl e \<Rightarrow> Inl e
      | Inr nested \<Rightarrow> Inr (obj_set alias (JArr nested) row))"

fun populateRows ::
  "(jsval list \<Rightarrow> collection option \<Rightarrow> jsval list) \<Rightarrow> collection option \<Rightarrow> string \<Rightarrow> string \<Rightarrow>
   (string \<times> jsval) list list \<Rightarrow> js_error + (string \<times> jsval) list list" where
  "populateRows castResultRows schema alias pk [] = Inr []"
| "populateRows castResultRows schema alias pk (row # rows) =
     (case populateRow castResultRows schema alias pk row of
        Inl e \<Rightarrow> Inl e
      | Inr row' \<Rightarrow>
          (case populateRows castResultRows schema alias pk rows of
             Inl e \<Rightarrow> Inl e
           | Inr rows' \<Rightarrow> Inr (row' # rows')))"

fun populateJoins ::
  "(jsval list \<Rightarrow> collection option \<Rightarrow> jsval list) \<Rightarrow> connection \<Rightarrow> join_spec list \<Rightarrow>
   (string \<times> jsval) list list \<Rightarrow> js_error + (string \<times> jsval) list list \<times> connection" where
  "populateJoins castResultRows cxn [] result = Inr (result, cxn)"
| "populateJoins castResultRows cxn (j # js) result =
     (let alias = getJoinAlias j
      in case getPrimaryKey (FromConnection cxn) (child j) of
           Inl e \<Rightarrow> Inl e
         | Inr (pk, cs) \<Rightarrow>
             (let schema = map_of cs (child j)
              in case populateRows castResultRows schema alias pk result of
                   Inl e \<Rightarrow> Inl e
                 | Inr result' \<Rightarrow> populateJoins castResultRows (cxn\<lparr>collections := cs\<rparr>) js result'))"

definition adapter_join ::
  "(jsval list \<Rightarrow> collection option \<Rightarrow> jsval list) \<Rightarrow> connection \<Rightarrow> string \<Rightarrow> options \<Rightarrow>
   (string \<times> jsval) list list \<Rightarrow> js_error + jsval list \<times> connection" where
  "adapter_join castResultRows cxn tableName opts result =
     (case callUtil ''buildKnexJoinQuery'' result of
        Inl e \<Rightarrow> Inl e
      | Inr result \<Rightarrow>
          (case populateJoins castResultRows cxn (filter select (joins opts)) result of
             Inl e \<Rightarrow> Inl e
           | Inr (rows, cxn') \<Rightarrow>
               (let schema = map_of (collections cxn') tableName
                in case callUtil ''castResultRows'' (castResultRows (map JObj rows) schema) of
                     Inl e \<Rightarrow> Inl e
                   | Inr cast \<Rightarrow> Inr (cast, cxn'))))"

section \<open>Columns and constraints (util.js)\<close>

text \<open>
  A call of a knex builder method is the name of the method and its arguments;
  the methods are knex's own and are taken to accept what they are given. A
  column is the call on the table builder that declared it and the calls made on
  it since, in order. A diagnostic is one call of \<open>console.error\<close>.
\<close>

datatype knex_call = Call string "jsval list"

record column =
  col_decl :: knex_call
  col_mods :: "knex_call list"

datatype diagnostic = UnregisteredType jsval jsval | UnknownConstraint string

definition newColumn :: "knex_call \<Rightarrow> column" where
  "newColumn c = \<lparr>col_decl = c, col_mods = []\<rparr>"

definition modify :: "column \<Rightarrow> knex_call \<Rightarrow> column" where
  "modify col c = col\<lparr>col_mods := col_mods col @ [c]\<rparr>"

text \<open>\<open>String.prototype.toLowerCase\<close> on the letters A to Z.\<close>

definition lowerChar :: "char \<Rightarrow> char" where
  "lowerChar c = (if c \<in> set ''ABCDEFGHIJKLMNOPQRSTUVWXYZ'' then char_of (of_char c + (32::nat)) else c)"

definition toLowerCase :: "string \<Rightarrow> string" where
  "toLowerCase s = map lowerChar s"

text \<open>
  \<^verbatim>\<open>
  toKnexColumn (table, _name, attrDefinition) {
    let attr = _.isObject(attrDefinition) ? attrDefinition : { type: attrDefinition }
    let type = attr.autoIncrement ? 'serial' : attr.type
    let name = attr.columnName || _name
    switch (type.toLowerCase()) { ... }
  }
  \<close>
  \<open>typeColumn\<close> is the switch, in the order of its cases. The last labelled case,
  \<open>'sqlType'\<close>, is written with a capital and cannot equal a lower-cased tag.
\<close>

definition typeColumn :: "jsval \<Rightarrow> jsval \<Rightarrow> string \<Rightarrow> column \<times> diagnostic list" where
  "typeColumn attr name type =
     (let t = toLowerCase type
      in if t = ''character varying'' \<or> t = ''text'' \<or> t = ''mediumtext'' \<or> t = ''longtext''
           then (newColumn (Call ''text'' [name, JStr type]), [])
         else if t = ''string''
           then (newColumn (Call ''string'' [name, getProp ''length'' attr]), [])
         else if t = ''serial'' \<or> t = ''smallserial''
           then (newColumn (Call ''specificType'' [name, JStr ''serial'']), [])
         else if t = ''bigserial''
           then (newColumn (Call ''specificType'' [name, JStr ''bigserial'']), [])
         else if t = ''boolean''
           then (newColumn (Call ''boolean'' [name]), [])
         else if t = ''int'' \<or> t = ''integer'' \<or> t = ''smallint''
           then (newColumn (Call ''integer'' [name]), [])
         else if t = ''bigint'' \<or> t = ''biginteger''
           then (newColumn (Call ''bigInteger'' [name]), [])
         else if t = ''real'' \<or> t = ''float''
           then (newColumn (Call ''float'' [name, getProp ''precision'' attr, getProp ''scale'' attr]), [])
         else if t = ''double''
           then (newColumn (Call ''float'' [name, JNum 15 0, getProp ''scale'' attr]), [])
         else if t = ''decimal''
           then (newColumn (Call ''decimal'' [name, getProp ''precision'' attr, getProp ''scale'' attr]), [])
         else if t = ''time''
           then (newColumn (Call ''time'' [name]), [])
         else if t = ''date''
           then (newColumn (Call ''date'' [name]), [])
         else if t = ''datestamp'' \<or> t = ''datetime''
           then (newColumn (Call ''timestamp'' [name, getProp ''standard'' attr]), [])
         else if t = ''array''
           then (newColumn (Call ''specificType'' [name, JStr ''text ARRAY'']), [])
         else if t = ''json''
           then (newColumn (Call ''json'' [name]), [])
         else if t = ''jsonb''
           then (newColumn (Call ''json'' [name, JBool True]), [])
         else if t = ''binary'' \<or> t = ''bytea''
           then (newColumn (Call ''binary'' [name]), [])
         else if t = ''uuid''
           then (modify (newColumn (Call ''uuid'' [name])) (Call ''defaultTo'' [JStr ''uuid_generate_v4()'']), [])
         else if t = ''enum'' \<or> t = ''enu''
           then (newColumn (Call ''enu'' [name, getProp ''enum'' attr]), [])
         else if t = ''comment''
           then (newColumn (Call ''comment'' [getProp ''comment'' attr]), [])
         else if t = ''sqltype'' \<or> t = ''sqlType''
           then (newColumn (Call ''specificType'' [name, JStr type]), [])
         else (newColumn (Call ''text'' [name]), [UnregisteredType name (JStr type)]))"

text \<open>
  The three bindings at the head of the function are \<open>attrObject\<close>, \<open>typeTag\<close> and
  \<open>columnName\<close>. \<open>type.toLowerCase()\<close> throws a TypeError unless \<open>type\<close> is a
  string.
\<close>

definition attrObject :: "jsval \<Rightarrow> jsval" where
  "attrObject attrDefinition =
     (if isObject attrDefinition then attrDefinition else JObj [(''type'', attrDefinition)])"

definition typeTag :: "jsval \<Rightarrow> jsval" where
  "typeTag attrDefinition =
     (let attr = attrObject attrDefinition
      in if truthy (getProp ''autoIncrement'' attr) then JStr ''serial'' else getProp ''type'' attr)"

definition columnName :: "string \<Rightarrow> jsval \<Rightarrow> jsval" where
  "columnName name0 attrDefinition =
     js_or_val (getProp ''columnName'' (attrObject attrDefinition)) (JStr name0)"

definition toKnexColumn :: "string \<Rightarrow> jsval \<Rightarrow> js_error + column \<times> diagnostic list" where
  "toKnexColumn name0 attrDefinition =
     (let attr = attrObject attrDefinition;
          type = typeTag attrDefinition;
          name = columnName name0 attrDefinition
      in case type of
           JStr t \<Rightarrow> Inr (typeColumn attr name t)
         | _ \<Rightarrow> Inl TypeError)"

text \<open>The case labels of the switch.\<close>

definition supportedTypes :: "string list" where
  "supportedTypes =
     [''character varying'', ''text'', ''mediumtext'', ''longtext'', ''string'', ''serial'',
      ''smallserial'', ''bigserial'', ''boolean'', ''int'', ''integer'', ''smallint'', ''bigint'',
      ''biginteger'', ''real'', ''float'', ''double'', ''decimal'', ''time'', ''date'', ''datestamp'',
      ''datetime'', ''array'', ''json'', ''jsonb'', ''binary'', ''bytea'', ''uuid'', ''enum'', ''enu'',
      ''comment'', ''sqltype'', ''sqlType'']"

text \<open>
  \<^verbatim>\<open>
  applyParticularColumnConstraint (column, constraintName, value) {
    if (!value) return
    switch (constraintName) {
      case 'index':
        return column.index(_.get(value, 'indexName'), _.get(value, 'indexType'))
      case 'unique':
        return column.unique()
      case 'notNull':
        return column.notNullable()
      case 'defaultsTo':
        return column.defaultTo(value)
      case 'type': case 'primaryKey': case 'autoIncrement': case 'on': case 'via':
      case 'foreignKey': case 'references': case 'model': case 'alias':
        return
      default:
        console.error('Unknown constraint [', constraintName, '] on column')
    }
  }
  \<close>
\<close>

definition applyParticularColumnConstraint :: "column \<Rightarrow> string \<Rightarrow> jsval \<Rightarrow> column \<times> diagnostic list" where
  "applyParticularColumnConstraint col constraintName v =
     (if falsy v then (col, [])
      else if constraintName = ''index''
        then (modify col (Call ''index'' [getProp ''indexName'' v, getProp ''indexType'' v]), [])
      else if constraintName = ''unique''
        then (modify col (Call ''unique'' []), [])
      else if constraintName = ''notNull''
        then (modify col (Call ''notNullable'' []), [])
      else if constraintName = ''defaultsTo''
        then (modify col (Call ''defaultTo'' [v]), [])
      else if constraintName = ''type'' \<or> constraintName = ''primaryKey'' \<or> constraintName = ''autoIncrement''
              \<or> constraintName = ''on'' \<or> constraintName = ''via'' \<or> constraintName = ''foreignKey''
              \<or> constraintName = ''references'' \<or> constraintName = ''model'' \<or> constraintName = ''alias''
        then (col, [])
      else (col, [UnknownConstraint constraintName]))"

text \<open>
  \<open>value == 'AUTO_INCREMENT'\<close>, the loose equality with that string: a string is
  compared as it is; an array is compared by its text, the texts of its elements
  joined by commas, which is that string only for a single element whose text it
  is; no number, boolean, null, undefined or plain object equals it.
\<close>

fun looseEqAutoIncrement :: "jsval \<Rightarrow> bool" where
  "looseEqAutoIncrement (JStr t) = (t = ''AUTO_INCREMENT'')"
| "looseEqAutoIncrement (JArr [x]) = looseEqAutoIncrement x"
| "looseEqAutoIncrement v = False"

text \<open>
  \<^verbatim>\<open>
  applyColumnConstraints (column, definition) {
    if (_.isString(definition)) { return }
    return _.map(definition, (value, key) => {
      if (key == 'defaultsTo' && definition.autoIncrement && value == 'AUTO_INCREMENT') { return }
      return this.applyParticularColumnConstraint(column, key, value)
    })
  }
  \<close>
\<close>

fun applyEachConstraint :: "jsval \<Rightarrow> (string \<times> jsval) list \<Rightarrow> column \<Rightarrow> column \<times> diagnostic list" where
  "applyEachConstraint definition [] col = (col, [])"
| "applyEachConstraint definition (p # ps) col =
     (if fst p = ''defaultsTo'' \<and> truthy (getProp ''autoIncrement'' definition) \<and> looseEqAutoIncrement (snd p)
      then applyEachConstraint definition ps col
      else
        (let r = applyParticularColumnConstraint col (fst p) (snd p);
             r' = applyEachConstraint definition ps (fst r)
         in (fst r', snd r @ snd r')))"

definition applyColumnConstraints :: "column \<Rightarrow> jsval \<Rightarrow> column \<times> diagnostic list" where
  "applyColumnConstraints col definition =
     (case definition of
        JStr s \<Rightarrow> (col, [])
      | _ \<Rightarrow> applyEachConstraint definition (entries definition) col)"

text \<open>
  \<^verbatim>\<open>
  applyPrimaryKeyConstraints (table, definition) {
    let primaryKeys = _.keys(_.pick(definition, attribute => { return attribute.primaryKey }))
    return table.primary(primaryKeys)
  }
  applyTableConstraints(table, definition) {
    return this.applyPrimaryKeyConstraints(table, definition)
  }
  \<close>
  adapter.js calls \<open>_.uniqBy\<close> and \<open>_.keyBy\<close>, which lodash has from version 4, and
  it is that lodash both files import. There \<open>_.pick(object, paths)\<close> picks the
  properties that the paths name, and a predicate is \<open>_.pickBy\<close>'s to take: the
  function given here is read as a path, the text of the function, which names
  no attribute. Nothing is picked, the attributes are not read, and \<open>primary\<close> is
  called with the empty array.
\<close>

definition applyPrimaryKeyConstraints :: "(string \<times> jsval) list \<Rightarrow> knex_call" where
  "applyPrimaryKeyConstraints definition = Call ''primary'' [JArr []]"

definition applyTableConstraints :: "(string \<times> jsval) list \<Rightarrow> knex_call" where
  "applyTableConstraints definition = applyPrimaryKeyConstraints definition"

section \<open>Creating and altering tables (adapter.js)\<close>

text \<open>
  What a schema operation does is recorded as: the collection it reads from
  \<open>cxn.collections\<close> (\<open>None\<close> when the property is undefined), the calls it makes
  on \<open>knex.schema\<close> with the table name of each, the diagnostics, and the error
  when the table callback throws (the promise is then rejected and the table call
  is not made).
\<close>

datatype schema_call =
    HasTable string
  | CreateTable string "column list" knex_call
  | AlterTable string "column list"

record schema_run =
  run_schema :: "collection option"
  schema_calls :: "schema_call list"
  diagnostics :: "diagnostic list"
  failure :: "js_error option"

fun call_table :: "schema_call \<Rightarrow> string" where
  "call_table (HasTable t) = t"
| "call_table (CreateTable t cols pk) = t"
| "call_table (AlterTable t cols) = t"

text \<open>
  The body of the table callbacks: a column per attribute, then its constraints.
  \<^verbatim>\<open>
  let newColumn = Util.toKnexColumn(table, attributeName, definition, schema, cxn.collections)
  Util.applyColumnConstraints(newColumn, definition)
  \<close>
  The collection that was looked up is passed as a fourth argument, which
  \<open>toKnexColumn\<close> of util.js does not take.
\<close>

definition buildColumn :: "string \<Rightarrow> jsval \<Rightarrow> js_error + column \<times> diagnostic list" where
  "buildColumn attributeName definition =
     (case toKnexColumn attributeName definition of
        Inl e \<Rightarrow> Inl e
      | Inr r \<Rightarrow>
          (let r' = applyColumnConstraints (fst r) definition
           in Inr (fst r', snd r @ snd r')))"

fun buildColumns :: "(string \<times> jsval) list \<Rightarrow> column list \<times> diagnostic list \<times> js_error option" where
  "buildColumns [] = ([], [], None)"
| "buildColumns (p # ps) =
     (case buildColumn (fst p) (snd p) of
        Inl e \<Rightarrow> ([], [], Some e)
      | Inr r \<Rightarrow>
          (let rest = buildColumns ps
           in (fst r # fst rest, snd r @ fst (snd rest), snd (snd rest))))"

text \<open>
  \<^verbatim>\<open>
  define (connectionName, _tableName, definition, cb) {
    let cxn = Adapter.connections.get(connectionName)
    let schema = cxn.collections[_tableName]
    let tableName = _tableName.substring(0, 63)
    return cxn.knex.schema
      .hasTable(tableName)
      .then(exists => {
        if (exists) return
        return cxn.knex.schema.createTable(tableName, table => {
          _.each(definition, (definition, attributeName) => {
            let newColumn = Util.toKnexColumn(table, attributeName, definition, schema, cxn.collections)
            Util.applyColumnConstraints(newColumn, definition)
          })
          Util.applyTableConstraints(table, definition)
        })
      })
      ...
  }
  \<close>
  \<open>db\<close> is the list of the tables of the database, which \<open>hasTable\<close> answers from.
\<close>

definition adapter_define :: "connection \<Rightarrow> string list \<Rightarrow> string \<Rightarrow> (string \<times> jsval) list \<Rightarrow> schema_run" where
  "adapter_define cxn db tableName0 definition =
     (let schema = map_of (collections cxn) tableName0;
          tableName = take 63 tableName0;
          run = \<lparr>run_schema = schema, schema_calls = [HasTable tableName],
                 diagnostics = [], failure = None\<rparr>
      in if tableName \<in> set db then run
         else
           (let cols = buildColumns (entries (JObj definition))
            in case snd (snd cols) of
                 Some e \<Rightarrow> run\<lparr>diagnostics := fst (snd cols), failure := Some e\<rparr>
               | None \<Rightarrow>
                   run\<lparr>schema_calls :=
                         [HasTable tableName,
                          CreateTable tableName (fst cols) (applyTableConstraints definition)],
                       diagnostics := fst (snd cols)\<rparr>))"

text \<open>
  \<^verbatim>\<open>
  addAttribute (connectionName, tableName, attributeName, definition, cb) {
    let cxn = Adapter.connections.get(connectionName)
    let schema = cxn.collections[tableName]
    return cxn.knex.schema
      .table(tableName, table => {
        let newColumn = Util.toKnexColumn(table, attributeName, definition, schema, cxn.collections)
        Util.applyColumnConstraints(newColumn, definition)
      })
      ...
  }
  \<close>
\<close>

definition addAttribute :: "connection \<Rightarrow> string \<Rightarrow> string \<Rightarrow> jsval \<Rightarrow> schema_run" where
  "addAttribute cxn tableName attributeName definition =
     (let schema = map_of (collections cxn) tableName;
          run = \<lparr>run_schema = schema, schema_calls = [], diagnostics = [], failure = None\<rparr>
      in case buildColumn attributeName definition of
           Inl e \<Rightarrow> run\<lparr>failure := Some e\<rparr>
         | Inr r \<Rightarrow> run\<lparr>schema_calls := [AlterTable tableName [fst r]], diagnostics := snd r\<rparr>)"

section \<open>The specification of value casting\<close>

text \<open>
  The words of the specification for \<open>castValues\<close>: a value is left as it is,
  except that a string that begins with an opening bracket is replaced by the
  array it parses to; the call throws when such a string does not parse.
\<close>

fun bracketText :: "jsval \<Rightarrow> string option" where
  "bracketText (JStr (c # cs)) = (if c = CHR ''['' then Some (c # cs) else None)"
| "bracketText v = None"

definition castThrows :: "(string \<Rightarrow> jsval option) \<Rightarrow> jsval \<Rightarrow> bool" where
  "castThrows parse v = (case bracketText v of None \<Rightarrow> False | Some s \<Rightarrow> parse s = None)"

definition castResult :: "(string \<Rightarrow> jsval option) \<Rightarrow> jsval \<Rightarrow> jsval" where
  "castResult parse v =
     (case bracketText v of
        None \<Rightarrow> v
      | Some s \<Rightarrow> (case parse s of Some (JArr a) \<Rightarrow> JArr a | _ \<Rightarrow> v))"

section \<open>Placeholders and parameters\<close>

lemma isDigit_not_special: "isDigit c \<Longrightarrow> c \<noteq> CHR ''$'' \<and> c \<noteq> CHR ''?''"
  by (auto simp: isDigit_def)

lemma occurrences_Cons:
  "placeholderOccurrences (c # cs) =
     (if c = CHR ''$'' \<and> cs \<noteq> [] \<and> isDigit (hd cs) then 1 else 0) + placeholderOccurrences cs"
  by (cases cs) auto

lemma occurrences_dropWhile:
  "placeholderOccurrences (dropWhile isDigit cs) = placeholderOccurrences cs"
  by (induction cs) (auto simp: occurrences_Cons dest: isDigit_not_special)

lemma count_dropWhile:
  "count_list (dropWhile isDigit cs) (CHR ''?'') = count_list cs (CHR ''?'')"
  by (induction cs) (auto dest: isDigit_not_special)

lemma toKnexRawQuery_count:
  "count_list (toKnexRawQuery q) (CHR ''?'') = count_list q (CHR ''?'') + placeholderOccurrences q"
proof (induction q rule: toKnexRawQuery.induct)
  case 1
  then show ?case by simp
next
  case (2 c cs)
  show ?case
  proof (cases "c = CHR ''$'' \<and> cs \<noteq> [] \<and> isDigit (hd cs)")
    case True
    then show ?thesis
      using 2(1) by (simp add: occurrences_Cons occurrences_dropWhile count_dropWhile)
  next
    case False
    then show ?thesis
      using 2(2) by (auto simp add: occurrences_Cons)
  qed
qed

lemma toKnexRawQuery_Nil: "toKnexRawQuery q = [] \<longleftrightarrow> q = []"
  by (cases q) auto

lemma toKnexRawQuery_hd: "q \<noteq> [] \<Longrightarrow> isDigit (hd (toKnexRawQuery q)) \<longleftrightarrow> isDigit (hd q)"
  by (cases q) (auto simp: isDigit_def)

lemma toKnexRawQuery_rewrites_all: "placeholderOccurrences (toKnexRawQuery q) = 0"
proof (induction q rule: toKnexRawQuery.induct)
  case 1
  then show ?case by simp
next
  case (2 c cs)
  show ?case
  proof (cases "c = CHR ''$'' \<and> cs \<noteq> [] \<and> isDigit (hd cs)")
    case True
    then show ?thesis
      using 2(1) by (simp add: occurrences_Cons)
  next
    case False
    then show ?thesis
      using 2(2) by (auto simp add: occurrences_Cons toKnexRawQuery_Nil toKnexRawQuery_hd)
  qed
qed

lemma castValues_Inr:
  "castValues parse vs = Inr bs \<Longrightarrow>
     length bs = length vs \<and> (\<forall>i < length vs. castValue parse (vs ! i) = Inr (bs ! i))"
proof (induction vs arbitrary: bs)
  case Nil
  then show ?case by simp
next
  case (Cons v vs)
  then obtain w ws where w: "castValue parse v = Inr w" and ws: "castValues parse vs = Inr ws"
    and bs: "bs = w # ws"
    by (auto split: sum.splits)
  from Cons.IH[OF ws] w bs show ?case
    by (auto simp: nth_Cons split: nat.splits)
qed

lemma buildWhereClause_adapter_query:
  "buildWhereClause parse read tableName opts =
     adapter_query parse (fst (read tableName (predicate opts))) (snd (read tableName (predicate opts)))"
  by (simp add: buildWhereClause_def adapter_query_def Let_def)

text \<open>
  C1 (amended). Whenever the raw query is built, that is whenever \<open>castValues\<close>
  does not throw: the rewritten text has one question mark for each question
  mark of the given text and one for each occurrence of a dollar sign followed
  by digits, and no such occurrence is left; the bindings are as many as the
  given values, the i-th binding being the cast of the i-th value. So a given
  text without question marks and with as many dollar placeholders as there are
  values compiles to a query whose placeholders are as many as its bindings.
\<close>

theorem compiled_query_placeholders:
  assumes "adapter_query parse query vals = Inr raw"
  shows "placeholders raw = count_list query (CHR ''?'') + placeholderOccurrences query
       \<and> raw = KnexRaw (toKnexRawQuery query) (bindings raw)
       \<and> placeholderOccurrences (toKnexRawQuery query) = 0
       \<and> length (bindings raw) = length vals
       \<and> (\<forall>i < length vals. castValue parse (vals ! i) = Inr (bindings raw ! i))
       \<and> (count_list query (CHR ''?'') = 0 \<and> placeholderOccurrences query = length vals
            \<longrightarrow> placeholders raw = length (bindings raw))"
proof -
  from assms obtain bs where bs: "castValues parse vals = Inr bs"
    and raw: "raw = KnexRaw (toKnexRawQuery query) bs"
    by (auto simp: adapter_query_def split: sum.splits)
  from castValues_Inr[OF bs] raw show ?thesis
    by (simp add: toKnexRawQuery_count toKnexRawQuery_rewrites_all)
qed

theorem compiled_query_placeholders_witness:
  "adapter_query JSON_parse ''select * from t where a = $1 and b = $12'' [JStr ''[1,2]'', JNum 7 0]
     = Inr (KnexRaw ''select * from t where a = ? and b = ?'' [JArr [JNum 1 0, JNum 2 0], JNum 7 0])
   \<and> placeholders (KnexRaw ''select * from t where a = ? and b = ?'' [JArr [JNum 1 0, JNum 2 0], JNum 7 0])
     = length (bindings (KnexRaw ''select * from t where a = ? and b = ?'' [JArr [JNum 1 0, JNum 2 0], JNum 7 0]))"
proof -
  have h: "adapter_query JSON_parse ''select * from t where a = $1 and b = $12'' [JStr ''[1,2]'', JNum 7 0]
     = Inr (KnexRaw ''select * from t where a = ? and b = ?'' [JArr [JNum 1 0, JNum 2 0], JNum 7 0])"
    by code_simp
  have c: "count_list ''select * from t where a = $1 and b = $12'' (CHR ''?'') = 0
       \<and> placeholderOccurrences ''select * from t where a = $1 and b = $12'' = length [JStr ''[1,2]'', JNum 7 0]"
    by code_simp
  from compiled_query_placeholders[OF h] c h show ?thesis
    by blast
qed

lemma parseValue_draft: "parseValue n ''[draft] notes'' = None"
proof (cases n)
  case 0
  then show ?thesis by simp
next
  case (Suc m)
  have "parseElements m ''draft] notes'' = None"
  proof (cases m)
    case 0
    then show ?thesis by simp
  next
    case (Suc k)
    have "parseValue k ''draft] notes'' = None"
      by (cases k) (simp_all add: skipWs_def isWs_def parseNumber_def isDigit_def Let_def)
    with Suc show ?thesis by simp
  qed
  with Suc show ?thesis
    by (simp add: skipWs_def isWs_def)
qed

theorem compiled_query_counterexample:
  "castValues JSON_parse [JNum 7 0, JStr ''[draft] notes''] = Inl SyntaxError
   \<and> adapter_query JSON_parse ''select $1::int + $1::int'' [JNum 5 0]
       = Inr (KnexRaw ''select ?::int + ?::int'' [JNum 5 0])
   \<and> placeholders (KnexRaw ''select ?::int + ?::int'' [JNum 5 0]) = 2
   \<and> length (bindings (KnexRaw ''select ?::int + ?::int'' [JNum 5 0])) = 1"
proof -
  have "castValues JSON_parse [JNum 7 0, JStr ''[draft] notes''] = Inl SyntaxError"
    by (simp add: castValue_def JSON_parse_def parseValue_draft)
  moreover have "adapter_query JSON_parse ''select $1::int + $1::int'' [JNum 5 0]
       = Inr (KnexRaw ''select ?::int + ?::int'' [JNum 5 0])"
    by code_simp
  ultimately show ?thesis
    by simp
qed

section \<open>Value casting\<close>

lemma castValue_spec:
  "castValue parse v = (if castThrows parse v then Inl SyntaxError else Inr (castResult parse v))"
proof (cases v)
  case (JStr s)
  then show ?thesis
    by (cases s) (auto simp: castValue_def castThrows_def castResult_def split: option.splits jsval.splits)
qed (auto simp: castValue_def castThrows_def castResult_def)

lemma castValues_spec:
  "castValues parse vs =
     (if list_ex (castThrows parse) vs then Inl SyntaxError else Inr (map (castResult parse) vs))"
  by (induction vs) (auto simp: castValue_spec)

lemma isWs_bracket: "\<not> isWs (CHR ''['')"
  by (simp add: isWs_def)

lemma parseValue_bracket_array:
  "parseValue n (CHR ''['' # s) = Some (v, r) \<Longrightarrow> \<exists>a. v = JArr a"
  by (cases n) (auto simp: skipWs_def isWs_bracket split: list.splits if_splits)

lemma JSON_parse_bracket_array:
  assumes "JSON_parse (CHR ''['' # s) = Some v"
  shows "\<exists>a. v = JArr a"
proof -
  from assms obtain n r where "parseValue n (CHR ''['' # s) = Some (v, r)"
    unfolding JSON_parse_def
    by (auto simp del: parseValue.simps split: option.splits if_splits)
  then show ?thesis
    by (rule parseValue_bracket_array)
qed

lemma parseValue_not_json: "parseValue n ''[not json'' = None"
proof (cases n)
  case 0
  then show ?thesis by simp
next
  case (Suc m)
  have "parseElements m ''not json'' = None"
  proof (cases m)
    case 0
    then show ?thesis by simp
  next
    case (Suc k)
    have "parseValue k ''not json'' = None"
      by (cases k) (simp_all add: skipWs_def isWs_def parseLiteral_def)
    with Suc show ?thesis by simp
  qed
  with Suc show ?thesis
    by (simp add: skipWs_def isWs_def)
qed

text \<open>
  C9. \<open>castValues\<close> returns the values in order, each unchanged except that a
  string beginning with an opening bracket is replaced by the array it parses
  to, unless one such string does not parse, and then it throws; a string that
  begins with the bracket and parses as JSON parses to an array; and the text
  \<open>[not json\<close> does not parse, with any amount of fuel, so that casting a list
  that holds it throws.
\<close>

theorem castValues_casts_or_throws:
  "castValues parse vs =
     (if list_ex (castThrows parse) vs then Inl SyntaxError else Inr (map (castResult parse) vs))
   \<and> (\<forall>s v. JSON_parse (CHR ''['' # s) = Some v \<longrightarrow>
         (\<exists>a. v = JArr a) \<and> castResult JSON_parse (JStr (CHR ''['' # s)) = v)
   \<and> (\<forall>n. parseValue n ''[not json'' = None)
   \<and> JSON_parse ''[not json'' = None
   \<and> castValues JSON_parse [JStr ''plain'', JStr ''[not json''] = Inl SyntaxError"
proof -
  have n: "JSON_parse ''[not json'' = None"
    by (simp add: JSON_parse_def parseValue_not_json)
  have "castValues JSON_parse [JStr ''plain'', JStr ''[not json''] = Inl SyntaxError"
    by (simp add: castValues_spec castThrows_def n)
  moreover have "\<forall>s v. JSON_parse (CHR ''['' # s) = Some v \<longrightarrow>
         (\<exists>a. v = JArr a) \<and> castResult JSON_parse (JStr (CHR ''['' # s)) = v"
    by (auto simp: castResult_def dest: JSON_parse_bracket_array)
  ultimately show ?thesis
    using n castValues_spec parseValue_not_json by blast
qed

theorem castValues_casts_or_throws_witness:
  "castValues JSON_parse [JStr ''[1, 2.5]'', JStr ''plain'', JNum 3 0, JStr []]
     = Inr [JArr [JNum 1 0, JNum 25 1], JStr ''plain'', JNum 3 0, JStr []]
   \<and> JSON_parse ''[1, 2.5]'' = Some (JArr [JNum 1 0, JNum 25 1])"
proof -
  have p: "JSON_parse ''[1, 2.5]'' = Some (JArr [JNum 1 0, JNum 25 1])"
    by code_simp
  have "castValues JSON_parse [JStr ''[1, 2.5]'', JStr ''plain'', JNum 3 0, JStr []] =
     (if list_ex (castThrows JSON_parse) [JStr ''[1, 2.5]'', JStr ''plain'', JNum 3 0, JStr []]
      then Inl SyntaxError
      else Inr (map (castResult JSON_parse) [JStr ''[1, 2.5]'', JStr ''plain'', JNum 3 0, JStr []]))"
    using castValues_casts_or_throws[of JSON_parse "[JStr ''[1, 2.5]'', JStr ''plain'', JNum 3 0, JStr []]"]
    by blast
  with p show ?thesis
    by (simp add: castThrows_def castResult_def)
qed

section \<open>Column constraints\<close>

lemma applyParticular_falsy:
  "falsy v \<Longrightarrow> applyParticularColumnConstraint col k v = (col, [])"
  by (simp add: applyParticularColumnConstraint_def)

lemma applyEachConstraint_truthy:
  "applyEachConstraint d ps col = applyEachConstraint d (filter (\<lambda>p. truthy (snd p)) ps) col"
proof (induction ps arbitrary: col)
  case Nil
  then show ?case by simp
next
  case (Cons p ps)
  show ?case
  proof (cases "falsy (snd p)")
    case True
    then have "applyEachConstraint d (p # ps) col = applyEachConstraint d ps col"
      by (simp add: applyParticular_falsy Let_def)
    with True Cons.IH show ?thesis
      by (simp add: truthy_def)
  next
    case False
    with Cons.IH show ?thesis
      by (simp add: truthy_def Let_def)
  qed
qed

text \<open>
  C10. A constraint whose value is falsy changes nothing on the column and prints
  nothing, whatever its name; the constraints of an attribute definition are
  those of the truthy-valued properties among the ones that are visited, and of
  no other; in particular a default of \<open>false\<close>, \<open>0\<close>, the empty string or \<open>null\<close>
  is never set, and \<open>notNull: false\<close> and \<open>unique: false\<close> add nothing.
\<close>

theorem falsy_constraints_do_nothing:
  "(falsy v \<longrightarrow> applyParticularColumnConstraint col k v = (col, []))
   \<and> applyColumnConstraints col (JObj ps)
       = applyEachConstraint (JObj ps) (filter (\<lambda>p. truthy (snd p)) (entries (JObj ps))) col
   \<and> applyParticularColumnConstraint col ''defaultsTo'' (JBool False) = (col, [])
   \<and> applyParticularColumnConstraint col ''defaultsTo'' (JNum 0 0) = (col, [])
   \<and> applyParticularColumnConstraint col ''defaultsTo'' (JStr []) = (col, [])
   \<and> applyParticularColumnConstraint col ''defaultsTo'' JNull = (col, [])
   \<and> applyParticularColumnConstraint col ''notNull'' (JBool False) = (col, [])
   \<and> applyParticularColumnConstraint col ''unique'' (JBool False) = (col, [])"
proof -
  have "applyColumnConstraints col (JObj ps)
       = applyEachConstraint (JObj ps) (filter (\<lambda>p. truthy (snd p)) (entries (JObj ps))) col"
    using applyEachConstraint_truthy[of "JObj ps" "entries (JObj ps)" col]
    by (simp add: applyColumnConstraints_def del: entries.simps)
  then show ?thesis
    by (simp add: applyParticular_falsy del: entries.simps)
qed

theorem falsy_constraints_do_nothing_witness:
  "falsy (JNum 0 0)
   \<and> applyParticularColumnConstraint (newColumn (Call ''integer'' [JStr ''age''])) ''defaultsTo'' (JNum 0 0)
       = (newColumn (Call ''integer'' [JStr ''age'']), [])
   \<and> applyColumnConstraints (newColumn (Call ''integer'' [JStr ''age'']))
        (JObj [(''type'', JStr ''integer''), (''defaultsTo'', JNum 0 0), (''notNull'', JBool False),
               (''unique'', JBool True)])
       = (\<lparr>col_decl = Call ''integer'' [JStr ''age''], col_mods = [Call ''unique'' []]\<rparr>, [])"
proof -
  have f: "falsy (JNum 0 0)"
    by simp
  have "applyEachConstraint
          (JObj [(''type'', JStr ''integer''), (''defaultsTo'', JNum 0 0), (''notNull'', JBool False),
                 (''unique'', JBool True)])
          (filter (\<lambda>p. truthy (snd p))
             (entries (JObj [(''type'', JStr ''integer''), (''defaultsTo'', JNum 0 0), (''notNull'', JBool False),
              (''unique'', JBool True)])))
          (newColumn (Call ''integer'' [JStr ''age'']))
        = (\<lparr>col_decl = Call ''integer'' [JStr ''age''], col_mods = [Call ''unique'' []]\<rparr>, [])"
    by code_simp
  with f show ?thesis
    using falsy_constraints_do_nothing[of "JNum 0 0" "newColumn (Call ''integer'' [JStr ''age''])" "''defaultsTo''"
        "[(''type'', JStr ''integer''), (''defaultsTo'', JNum 0 0), (''notNull'', JBool False),
          (''unique'', JBool True)]"]
    by (simp del: entries.simps)
qed

section \<open>ORDER BY\<close>

lemma join_with_Cons:
  "join_with sep (x # xs) = x @ (if xs = [] then [] else sep @ join_with sep xs)"
  by (cases xs) auto

text \<open>
  What the function does for a sort object that lodash does not take for an
  array: the fragment is \<open>1\<close> when no sort is given or the sort object is empty;
  otherwise it is the tokens of the fields in the order of the object, joined by
  a comma and a space, the token of a field being its quoted name, qualified by
  the quoted table name, a space, and nothing for the direction 1 or \<open>desc\<close> for
  any other direction.
\<close>

lemma buildOrderByClause_fragment:
  "buildOrderByClause tableName (opts\<lparr>sort := JUndefined\<rparr>) = ''1''
   \<and> buildOrderByClause tableName (opts\<lparr>sort := JObj []\<rparr>) = ''1''
   \<and> (\<not> isLength (getProp ''length'' (JObj (p # ps))) \<longrightarrow>
        buildOrderByClause tableName (opts\<lparr>sort := JObj (p # ps)\<rparr>)
          = orderToken tableName p
            @ (if ps = [] then [] else '', '' @ join_with '', '' (map (orderToken tableName) ps)))
   \<and> orderToken tableName (field, JNum 1 0) = quoted tableName @ ''.'' @ quoted field @ '' ''
   \<and> orderToken tableName (field, JNum (- 1) 0) = quoted tableName @ ''.'' @ quoted field @ '' desc''"
  by (simp add: buildOrderByClause_def orderToken_def join_with_Cons)

lemma buildOrderByClause_two_fields:
  "buildOrderByClause ''users''
     \<lparr>sort = JObj [(''name'', JNum 1 0), (''age'', JNum (- 1) 0)], limit = None, skip = None,
      predicate = JObj []\<rparr>
     = [dq] @ ''users'' @ [dq] @ ''.'' @ [dq] @ ''name'' @ [dq] @ '' , ''
       @ [dq] @ ''users'' @ [dq] @ ''.'' @ [dq] @ ''age'' @ [dq] @ '' desc''"
  by code_simp

text \<open>
  C7. A sort object with a field named \<open>length\<close> whose direction is 1 is not
  rendered field by field: lodash visits it like an array of that length. The
  ascending order by the column \<open>length\<close> of the table \<open>films\<close> comes out as the
  descending order by a column \<open>0\<close>, and a field given before \<open>length\<close> is lost.
\<close>

theorem buildOrderByClause_length_field:
  "buildOrderByClause ''films''
     \<lparr>sort = JObj [(''length'', JNum 1 0)], limit = None, skip = None, predicate = JObj []\<rparr>
     = [dq] @ ''films'' @ [dq] @ ''.'' @ [dq] @ ''0'' @ [dq] @ '' desc''
   \<and> buildOrderByClause ''films''
     \<lparr>sort = JObj [(''title'', JNum (- 1) 0), (''length'', JNum 1 0)], limit = None, skip = None,
      predicate = JObj []\<rparr>
     = [dq] @ ''films'' @ [dq] @ ''.'' @ [dq] @ ''0'' @ [dq] @ '' desc''"
  by code_simp

section \<open>Parent aliases\<close>

text \<open>
  C5 (amended). The correlated subquery of a join, when its WHERE clause is
  built, selects from the child table and carries exactly one raw condition, the
  equality of the quoted child key of the quoted child table with the quoted
  parent key under the quoted parent alias; the parent alias is the name of the
  parent table for a direct association, and for an association through a
  junction table it is the resolved join alias followed by the name of the
  parent table, where the resolved join alias is the parent key when
  \<open>removeParentKey\<close> is true and the alias differs from the parent key, and the
  alias of the association otherwise.
\<close>

theorem subquery_parent_alias:
  assumes "buildKnexJoinSubquery parse read j = Inr q"
  shows "q_from q = child j
       \<and> q_andWhereRaw q =
           [quoted (child j) @ ''.'' @ quoted (childKey j) @ '' = ''
            @ quoted (getParentAlias j) @ ''.'' @ quoted (parentKey j)]
       \<and> getParentAlias j =
           (if \<not> junctionTable j then parent j
            else if removeParentKey j \<and> join_alias j \<noteq> parentKey j then parentKey j @ parent j
            else join_alias j @ parent j)"
  using assms
  by (auto simp: buildKnexJoinSubquery_def Let_def correlation_def getParentAlias_def getJoinAlias_def
      split: sum.splits)

theorem subquery_parent_alias_witness:
  "buildKnexJoinSubquery JSON_parse (\<lambda>t c. (''1 = $1'', [JNum 1 0]))
     \<lparr>parent = ''user_pets'', parentKey = ''pet_id'', child = ''pet'', childKey = ''id'',
      join_alias = ''pets'', removeParentKey = False, junctionTable = True, select = True,
      join_criteria = None\<rparr>
   = Inr \<lparr>q_select = [], q_from = ''pet'', q_where = KnexRaw ''1 = ?'' [JNum 1 0],
          q_andWhereRaw = [[dq] @ ''pet'' @ [dq] @ ''.'' @ [dq] @ ''id'' @ [dq] @ '' = ''
                           @ [dq] @ ''petsuser_pets'' @ [dq] @ ''.'' @ [dq] @ ''pet_id'' @ [dq]],
          q_groupBy = [], q_orderByRaw = [], q_limit = None, q_offset = None, q_joinRaw = []\<rparr>
   \<and> getParentAlias
       \<lparr>parent = ''user_pets'', parentKey = ''pet_id'', child = ''pet'', childKey = ''id'',
        join_alias = ''pets'', removeParentKey = False, junctionTable = True, select = True,
        join_criteria = None\<rparr> = ''petsuser_pets''"
proof -
  have h: "buildKnexJoinSubquery JSON_parse (\<lambda>t c. (''1 = $1'', [JNum 1 0]))
     \<lparr>parent = ''user_pets'', parentKey = ''pet_id'', child = ''pet'', childKey = ''id'',
      join_alias = ''pets'', removeParentKey = False, junctionTable = True, select = True,
      join_criteria = None\<rparr>
   = Inr \<lparr>q_select = [], q_from = ''pet'', q_where = KnexRaw ''1 = ?'' [JNum 1 0],
          q_andWhereRaw = [[dq] @ ''pet'' @ [dq] @ ''.'' @ [dq] @ ''id'' @ [dq] @ '' = ''
                           @ [dq] @ ''petsuser_pets'' @ [dq] @ ''.'' @ [dq] @ ''pet_id'' @ [dq]],
          q_groupBy = [], q_orderByRaw = [], q_limit = None, q_offset = None, q_joinRaw = []\<rparr>"
    by code_simp
  from subquery_parent_alias[OF h] h show ?thesis
    by simp
qed

theorem parent_alias_counterexample:
  "junctionTable
     \<lparr>parent = ''user_pets'', parentKey = ''pet_id'', child = ''pet'', childKey = ''id'',
      join_alias = ''pets'', removeParentKey = True, junctionTable = True, select = True,
      join_criteria = None\<rparr>
   \<and> getParentAlias
       \<lparr>parent = ''user_pets'', parentKey = ''pet_id'', child = ''pet'', childKey = ''id'',
        join_alias = ''pets'', removeParentKey = True, junctionTable = True, select = True,
        join_criteria = None\<rparr> = ''pet_iduser_pets''
   \<and> getParentAlias
       \<lparr>parent = ''user_pets'', parentKey = ''pet_id'', child = ''pet'', childKey = ''id'',
        join_alias = ''pets'', removeParentKey = True, junctionTable = True, select = True,
        join_criteria = None\<rparr> \<noteq> ''pets'' @ ''user_pets''"
  by (simp add: getParentAlias_def getJoinAlias_def)

section \<open>The window of an association\<close>





section \<open>The root query\<close>

lemma getPrimaryKey_of_string: "getPrimaryKey (FromString s) tableName = Inl TypeError"
  by (simp add: getPrimaryKey_def)

lemma knexJoinQuery_defaults:
  "q_limit (knexJoinQuery selectClause tableName opts pk w) = Some (js_or (limit opts) PG_MAX_INT)
   \<and> q_offset (knexJoinQuery selectClause tableName opts pk w) = Some (js_or (skip opts) 0)"
  by (simp add: knexJoinQuery_def)

text \<open>
  C8. The statement that builds the root query gives it the limit 2147483647
  when no limit is specified and the offset 0 when no skip is specified, but
  \<open>buildKnexJoin\<close> does not reach that statement: the primary key is asked for
  with the identity of the connection in the place of the connection, and the
  call throws a TypeError, for every connection, table and criteria.
\<close>

theorem buildKnexJoin_raises:
  "buildKnexJoin parse read render cxn tableName opts = Inl TypeError
   \<and> q_limit (knexJoinQuery selectClause tableName (opts\<lparr>limit := None\<rparr>) pk w) = Some 2147483647
   \<and> q_offset (knexJoinQuery selectClause tableName (opts\<lparr>skip := None\<rparr>) pk w) = Some 0"
  by (simp add: buildKnexJoin_def getPrimaryKey_of_string knexJoinQuery_defaults js_or_def PG_MAX_INT_def)

section \<open>Table names\<close>

text \<open>
  C6 (amended). \<open>define\<close> truncates the table name to its first 63 characters for
  the calls it makes on the schema builder: it asks whether the table of the
  truncated name exists, stops there when it does, and otherwise creates the table
  of the truncated name with the columns of the attributes, unless building a
  column throws. The collection is read from the connection under the name as it
  was given, not under the truncated name. \<open>addAttribute\<close> truncates nothing: it
  reads the collection and alters the table under the name as it was given.
\<close>

theorem adapter_define_names:
  "run_schema (adapter_define cxn db tableName definition) = map_of (collections cxn) tableName
   \<and> schema_calls (adapter_define cxn db tableName definition) \<noteq> []
   \<and> hd (schema_calls (adapter_define cxn db tableName definition)) = HasTable (take 63 tableName)
   \<and> list_all (\<lambda>c. call_table c = take 63 tableName)
        (schema_calls (adapter_define cxn db tableName definition))
   \<and> (take 63 tableName \<in> set db \<longrightarrow>
        schema_calls (adapter_define cxn db tableName definition) = [HasTable (take 63 tableName)]
        \<and> failure (adapter_define cxn db tableName definition) = None)
   \<and> (take 63 tableName \<notin> set db \<and> snd (snd (buildColumns (entries (JObj definition)))) = None \<longrightarrow>
        schema_calls (adapter_define cxn db tableName definition)
          = [HasTable (take 63 tableName),
             CreateTable (take 63 tableName) (fst (buildColumns (entries (JObj definition))))
               (Call ''primary'' [JArr []])]
        \<and> failure (adapter_define cxn db tableName definition) = None)
   \<and> (take 63 tableName \<notin> set db \<and> snd (snd (buildColumns (entries (JObj definition)))) = Some e \<longrightarrow>
        schema_calls (adapter_define cxn db tableName definition) = [HasTable (take 63 tableName)]
        \<and> failure (adapter_define cxn db tableName definition) = Some e)
   \<and> length (take 63 tableName) \<le> 63
   \<and> (length tableName \<le> 63 \<longrightarrow> take 63 tableName = tableName)
   \<and> run_schema (addAttribute cxn tableName attributeName attr) = map_of (collections cxn) tableName
   \<and> list_all (\<lambda>c. call_table c = tableName) (schema_calls (addAttribute cxn tableName attributeName attr))"
  by (simp add: adapter_define_def addAttribute_def applyTableConstraints_def
        applyPrimaryKeyConstraints_def Let_def del: entries.simps split: option.splits sum.splits)

theorem adapter_define_names_witness:
  "schema_calls (adapter_define
      \<lparr>identity = ''pg'', collections =
         [(''a_table_name_that_is_longer_than_the_sixty_three_characters_of_pg'',
           \<lparr>coll_definition = [(''id'', JObj [(''type'', JStr ''integer''), (''primaryKey'', JBool True)])],
            pk_memo = None\<rparr>)]\<rparr>
      []
      ''a_table_name_that_is_longer_than_the_sixty_three_characters_of_pg''
      [(''id'', JObj [(''type'', JStr ''integer''), (''primaryKey'', JBool True)])])
   = [HasTable ''a_table_name_that_is_longer_than_the_sixty_three_characters_of_'',
      CreateTable ''a_table_name_that_is_longer_than_the_sixty_three_characters_of_''
        [\<lparr>col_decl = Call ''integer'' [JStr ''id''], col_mods = []\<rparr>]
        (Call ''primary'' [JArr []])]
   \<and> schema_calls (adapter_define \<lparr>identity = ''pg'', collections = []\<rparr>
      [''a_table_name_that_is_longer_than_the_sixty_three_characters_of_'']
      ''a_table_name_that_is_longer_than_the_sixty_three_characters_of_pg''
      [(''id'', JObj [(''type'', JStr ''integer''), (''primaryKey'', JBool True)])])
   = [HasTable ''a_table_name_that_is_longer_than_the_sixty_three_characters_of_'']
   \<and> failure (adapter_define \<lparr>identity = ''pg'', collections = []\<rparr> []
      ''a_table_name_that_is_longer_than_the_sixty_three_characters_of_pg'' [(''id'', JNull)])
   = Some TypeError
   \<and> take 63 ''short'' = ''short''"
proof -
  let ?long = "''a_table_name_that_is_longer_than_the_sixty_three_characters_of_pg''"
  let ?cut = "''a_table_name_that_is_longer_than_the_sixty_three_characters_of_''"
  let ?def = "[(''id'', JObj [(''type'', JStr ''integer''), (''primaryKey'', JBool True)])]"
  let ?cxn = "\<lparr>identity = ''pg'', collections = [(?long, \<lparr>coll_definition = ?def, pk_memo = None\<rparr>)]\<rparr>"
  let ?none = "\<lparr>identity = ''pg'', collections = []\<rparr>"
  have t: "take 63 ?long = ?cut"
    by code_simp
  have b: "snd (snd (buildColumns (entries (JObj ?def)))) = None"
    "fst (buildColumns (entries (JObj ?def))) = [\<lparr>col_decl = Call ''integer'' [JStr ''id''], col_mods = []\<rparr>]"
    "snd (snd (buildColumns (entries (JObj [(''id'', JNull)])))) = Some TypeError"
    by code_simp+
  have "take 63 ?long \<notin> set [] \<and> snd (snd (buildColumns (entries (JObj ?def)))) = None"
    using b(1) by simp
  with adapter_define_names[of ?cxn "[]" ?long ?def]
  have "schema_calls (adapter_define ?cxn [] ?long ?def)
          = [HasTable (take 63 ?long),
             CreateTable (take 63 ?long) (fst (buildColumns (entries (JObj ?def)))) (Call ''primary'' [JArr []])]"
    by blast
  then have 1: "schema_calls (adapter_define ?cxn [] ?long ?def)
          = [HasTable ?cut,
             CreateTable ?cut [\<lparr>col_decl = Call ''integer'' [JStr ''id''], col_mods = []\<rparr>]
               (Call ''primary'' [JArr []])]"
    by (simp only: t b(2))
  have "take 63 ?long \<in> set [?cut]"
    by (simp only: t) simp
  with adapter_define_names[of ?none "[?cut]" ?long ?def]
  have "schema_calls (adapter_define ?none [?cut] ?long ?def) = [HasTable (take 63 ?long)]"
    by blast
  then have 2: "schema_calls (adapter_define ?none [?cut] ?long ?def) = [HasTable ?cut]"
    by (simp only: t)
  have "take 63 ?long \<notin> set [] \<and> snd (snd (buildColumns (entries (JObj [(''id'', JNull)])))) = Some TypeError"
    using b(3) by simp
  with adapter_define_names[of ?none "[]" ?long "[(''id'', JNull)]" TypeError]
  have 3: "failure (adapter_define ?none [] ?long [(''id'', JNull)]) = Some TypeError"
    by blast
  have "length ''short'' \<le> 63"
    by simp
  with adapter_define_names[of ?none "[]" "''short''" "[]"]
  have 4: "take 63 ''short'' = ''short''"
    by blast
  from 1 2 3 4 show ?thesis
    by blast
qed

theorem table_name_counterexample:
  "run_schema (adapter_define
      \<lparr>identity = ''pg'', collections =
         [(''a_table_name_that_is_longer_than_the_sixty_three_characters_of_pg'',
           \<lparr>coll_definition = [], pk_memo = None\<rparr>)]\<rparr>
      [] ''a_table_name_that_is_longer_than_the_sixty_three_characters_of_pg'' [])
     = Some \<lparr>coll_definition = [], pk_memo = None\<rparr>
   \<and> map_of [(''a_table_name_that_is_longer_than_the_sixty_three_characters_of_pg'',
               \<lparr>coll_definition = [], pk_memo = None\<rparr>)]
        ''a_table_name_that_is_longer_than_the_sixty_three_characters_of_'' = None
   \<and> map call_table (schema_calls (adapter_define
      \<lparr>identity = ''pg'', collections =
         [(''a_table_name_that_is_longer_than_the_sixty_three_characters_of_pg'',
           \<lparr>coll_definition = [], pk_memo = None\<rparr>)]\<rparr>
      [] ''a_table_name_that_is_longer_than_the_sixty_three_characters_of_pg'' []))
     = [''a_table_name_that_is_longer_than_the_sixty_three_characters_of_'',
        ''a_table_name_that_is_longer_than_the_sixty_three_characters_of_'']
   \<and> map call_table (schema_calls (addAttribute \<lparr>identity = ''pg'', collections = []\<rparr>
      ''a_table_name_that_is_longer_than_the_sixty_three_characters_of_pg'' ''id'' (JStr ''integer'')))
     = [''a_table_name_that_is_longer_than_the_sixty_three_characters_of_pg'']"
  by code_simp

section \<open>Type tags\<close>

lemma typeColumn_unregistered:
  "toLowerCase tag \<notin> set supportedTypes \<Longrightarrow>
     typeColumn attr name tag = (newColumn (Call ''text'' [name]), [UnregisteredType name (JStr tag)])"
  by (simp add: typeColumn_def supportedTypes_def Let_def)

lemma typeColumn_registered:
  "toLowerCase tag \<in> set supportedTypes \<Longrightarrow> snd (typeColumn attr name tag) = []"
  unfolding typeColumn_def supportedTypes_def Let_def
  by (cases "toLowerCase tag = ''sqlType''") auto

lemma toKnexColumn_throws_iff:
  "toKnexColumn name d = Inl e \<longleftrightarrow> e = TypeError \<and> (\<forall>tag. typeTag d \<noteq> JStr tag)"
  by (cases "typeTag d") (auto simp: toKnexColumn_def Let_def)

text \<open>
  C4 (amended). For every attribute definition whose type tag is a string (a
  definition that is itself a string, or an object that is auto-increment or
  whose \<open>type\<close> is a string), \<open>toKnexColumn\<close> does not throw; when the lower-cased
  tag is none of the case labels it prints exactly one diagnostic and declares a
  text column of the column's name, and when it is one of them it prints
  nothing.
\<close>

theorem toKnexColumn_fail_soft:
  assumes "typeTag d = JStr tag"
  shows "toKnexColumn name d = Inr (typeColumn (attrObject d) (columnName name d) tag)
       \<and> (toLowerCase tag \<notin> set supportedTypes \<longrightarrow>
            toKnexColumn name d =
              Inr (newColumn (Call ''text'' [columnName name d]),
                   [UnregisteredType (columnName name d) (JStr tag)]))
       \<and> (toLowerCase tag \<in> set supportedTypes \<longrightarrow>
            snd (typeColumn (attrObject d) (columnName name d) tag) = [])
       \<and> typeTag (JStr tag) = JStr tag"
proof -
  have "toKnexColumn name d = Inr (typeColumn (attrObject d) (columnName name d) tag)"
    using assms by (simp add: toKnexColumn_def Let_def)
  moreover have "typeTag (JStr tag) = JStr tag"
    by (simp add: typeTag_def attrObject_def truthy_def)
  ultimately show ?thesis
    by (simp add: typeColumn_unregistered typeColumn_registered)
qed

theorem toKnexColumn_fail_soft_witness:
  "typeTag (JStr ''made-up-type'') = JStr ''made-up-type''
   \<and> toKnexColumn ''nick'' (JStr ''made-up-type'')
       = Inr (\<lparr>col_decl = Call ''text'' [JStr ''nick''], col_mods = []\<rparr>,
              [UnregisteredType (JStr ''nick'') (JStr ''made-up-type'')])
   \<and> toKnexColumn ''age'' (JObj [(''type'', JStr ''INTEGER''), (''columnName'', JStr ''years'')])
       = Inr (\<lparr>col_decl = Call ''integer'' [JStr ''years''], col_mods = []\<rparr>, [])"
proof -
  have t: "typeTag (JStr ''made-up-type'') = JStr ''made-up-type''"
    by code_simp
  have n: "toLowerCase ''made-up-type'' \<notin> set supportedTypes"
    by code_simp
  have c: "columnName ''nick'' (JStr ''made-up-type'') = JStr ''nick''"
    by code_simp
  have i: "toKnexColumn ''age'' (JObj [(''type'', JStr ''INTEGER''), (''columnName'', JStr ''years'')])
       = Inr (\<lparr>col_decl = Call ''integer'' [JStr ''years''], col_mods = []\<rparr>, [])"
    by code_simp
  from toKnexColumn_fail_soft[OF t, of "''nick''"] n
  have "toKnexColumn ''nick'' (JStr ''made-up-type'')
       = Inr (newColumn (Call ''text'' [columnName ''nick'' (JStr ''made-up-type'')]),
              [UnregisteredType (columnName ''nick'' (JStr ''made-up-type'')) (JStr ''made-up-type'')])"
    by blast
  then have "toKnexColumn ''nick'' (JStr ''made-up-type'')
       = Inr (\<lparr>col_decl = Call ''text'' [JStr ''nick''], col_mods = []\<rparr>,
              [UnregisteredType (JStr ''nick'') (JStr ''made-up-type'')])"
    by (simp add: c newColumn_def)
  with t i show ?thesis
    by blast
qed

theorem toKnexColumn_total_counterexample:
  "toKnexColumn ''owner'' (JObj [(''columnName'', JStr ''owner_id''), (''defaultsTo'', JNull)]) = Inl TypeError"
  by code_simp

section \<open>Nested rows\<close>

lemma seen_primitive:
  "isPrimitive k \<Longrightarrow> list_ex (\<lambda>s. sameValueZero s k) seen \<longleftrightarrow> k \<in> set seen"
proof (induction seen)
  case Nil
  then show ?case by simp
next
  case (Cons s seen)
  then show ?case
    by (cases s; cases k) auto
qed

lemma uniqByFrom_key:
  assumes "isPrimitive k"
  shows "filter (\<lambda>r. f r = k) (uniqByFrom f seen xs) =
           (if k \<in> set seen then []
            else case find (\<lambda>r. f r = k) xs of None \<Rightarrow> [] | Some r \<Rightarrow> [r])"
proof (induction xs arbitrary: seen)
  case Nil
  then show ?case by simp
next
  case (Cons x xs)
  show ?case
  proof (cases "f x = k")
    case True
    with assms Cons.IH[of seen] Cons.IH[of "seen @ [k]"] show ?thesis
      by (simp add: seen_primitive)
  next
    case False
    with Cons.IH[of seen] Cons.IH[of "seen @ [f x]"] show ?thesis
      by simp
  qed
qed

lemma keyed_truthy: "getProp pk r \<noteq> JUndefined \<Longrightarrow> truthy r"
  by (cases r) (auto simp: truthy_def)

lemma dedupe_key:
  assumes "isPrimitive k" and "k \<noteq> JUndefined"
  shows "filter (\<lambda>r. getProp pk r = k) (dedupe nested pk) =
           (case find (\<lambda>r. getProp pk r = k) (arrayElems nested) of None \<Rightarrow> [] | Some r \<Rightarrow> [r])"
proof -
  have "filter (\<lambda>r. getProp pk r = k) (dedupe nested pk) =
          filter (\<lambda>r. getProp pk r = k) (uniqBy nested pk)"
    using assms(2) by (auto simp: dedupe_def compact_def keyed_truthy intro!: filter_cong)
  then show ?thesis
    using uniqByFrom_key[OF assms(1), of "getProp pk" "[]" "arrayElems nested"]
    by (simp add: uniqBy_def)
qed

lemma uniqByFrom_subset: "set (uniqByFrom f seen xs) \<subseteq> set xs"
  by (induction xs arbitrary: seen) auto

text \<open>
  What the argument \<open>_.compact(_.uniqBy(row[alias], pk))\<close> holds: of the nested
  rows with a given key it is the first, and the elements are elements of the
  nested rows.
\<close>

lemma dedupe_subset: "set (dedupe nested pk) \<subseteq> set (arrayElems nested)"
  using uniqByFrom_subset[of "getProp pk" "[]" "arrayElems nested"]
  by (auto simp: dedupe_def compact_def uniqBy_def)

lemma callUtil_missing:
  "callUtil ''buildKnexJoinQuery'' x = Inl TypeError \<and> callUtil ''castResultRows'' y = Inl TypeError"
  by (simp add: callUtil_def Util_members_def)

text \<open>
  C3. \<open>join\<close> returns no de-duplicated rows: it calls \<open>Util.buildKnexJoinQuery\<close>,
  which is not a member of the object that util.js exports (\<open>buildKnexJoin\<close> is),
  and throws a TypeError on every input, before a row is read. The statement that
  assigns the de-duplicated nested rows of a row throws as well, on every row,
  since it hands them to \<open>Util.castResultRows\<close>, which is not a member either: of
  two nested rows with the key 1, a null and a row with the key 2, the argument
  of that call is the first row and the last, and the call throws.
\<close>

theorem adapter_join_raises:
  "adapter_join castResultRows cxn tableName opts result = Inl TypeError
   \<and> populateRow castResultRows schema alias pk row = Inl TypeError
   \<and> populateRows castResultRows schema alias pk (row # rows) = Inl TypeError
   \<and> dedupe (JArr [JObj [(''id'', JNum 1 0), (''name'', JStr ''Rex'')],
                     JObj [(''id'', JNum 1 0), (''name'', JStr ''Rex, again'')],
                     JNull,
                     JObj [(''id'', JNum 2 0), (''name'', JStr ''Tom'')]]) ''id''
       = [JObj [(''id'', JNum 1 0), (''name'', JStr ''Rex'')],
          JObj [(''id'', JNum 2 0), (''name'', JStr ''Tom'')]]"
proof -
  have "adapter_join castResultRows cxn tableName opts result = Inl TypeError
   \<and> populateRow castResultRows schema alias pk row = Inl TypeError
   \<and> populateRows castResultRows schema alias pk (row # rows) = Inl TypeError"
    by (simp add: adapter_join_def populateRow_def callUtil_missing)
  moreover have "dedupe (JArr [JObj [(''id'', JNum 1 0), (''name'', JStr ''Rex'')],
                     JObj [(''id'', JNum 1 0), (''name'', JStr ''Rex, again'')],
                     JNull,
                     JObj [(''id'', JNum 2 0), (''name'', JStr ''Tom'')]]) ''id''
       = [JObj [(''id'', JNum 1 0), (''name'', JStr ''Rex'')],
          JObj [(''id'', JNum 2 0), (''name'', JStr ''Tom'')]]"
    by code_simp
  ultimately show ?thesis
    by blast
qed


end
